theory Spec2Isabelle
  imports Complex_Main "HOL-Library.Word" "HOL-Library.Signed_Division" "HOL-Library.Sublist"
begin

unbundle bit_operations_syntax

section \<open>Data model of dwm.c\<close>

text \<open>
  The embedding follows \<^verbatim>\<open>src/dwm.c\<close> (the first of the two revisions the file holds,
  lines 1 to 2459) and \<^verbatim>\<open>src/config.def.h\<close>.

  \<^item> A C \<^verbatim>\<open>int\<close> is an unbounded \<^typ>\<open>int\<close>: signed overflow is undefined behaviour in C
    and lies outside the model. An \<^verbatim>\<open>unsigned int\<close> is a 32-bit word.
  \<^item> A \<^verbatim>\<open>float\<close> is a rational number and float arithmetic is exact: binary32 rounding,
    infinities and NaN are not modelled. The theorems below either do not reach a float
    operation or hold for a whole interval around the value in question.
  \<^item> A \<^verbatim>\<open>Client*\<close> is the X window id of the client (\<^verbatim>\<open>manage\<close> creates at most one
    client per window), looked up in a store. A \<^verbatim>\<open>Monitor*\<close> is the position of the
    monitor in the list \<^verbatim>\<open>mons\<close> (monitors are created and removed at the end of that
    list only). The intrusive lists through \<^verbatim>\<open>next\<close> and \<^verbatim>\<open>snext\<close> are the lists
    \<open>clients\<close> and \<open>stack\<close> of the monitor.
  \<^item> Truth values stored in \<^verbatim>\<open>int\<close> fields are \<^typ>\<open>bool\<close>.
  \<^item> Requests sent to the X server (configure, map, raise, grab, draw) are outputs and
    leave the state alone; they are not part of the model. What the X server answers to
    a query is an argument of the function that asks.
\<close>

type_synonym window = nat
type_synonym u32 = "32 word"

text \<open>\<^verbatim>\<open>enum\<close> of the arrange callbacks a \<^verbatim>\<open>Layout\<close> can point to; the floating layout has none.\<close>

datatype arrange_fn = Tile | Monocle

record Layout =
  symbol :: string
  lt_arrange :: "arrange_fn option"

text \<open>\<^verbatim>\<open>struct Client\<close>. The fields \<^verbatim>\<open>x, y, w, h\<close> are called \<open>c_x, c_y, c_w, c_h\<close>.\<close>

record Client =
  mina :: rat
  maxa :: rat
  c_x :: int
  c_y :: int
  c_w :: int
  c_h :: int
  oldx :: int
  oldy :: int
  oldw :: int
  oldh :: int
  basew :: int
  baseh :: int
  incw :: int
  inch :: int
  maxw :: int
  maxh :: int
  minw :: int
  minh :: int
  bw :: int
  oldbw :: int
  tags :: u32
  isfixed :: bool
  isfloating :: bool
  isurgent :: bool
  neverfocus :: bool
  oldstate :: bool
  isfullscreen :: bool
  mon :: nat

text \<open>\<^verbatim>\<open>struct Monitor\<close>. The field \<^verbatim>\<open>by\<close> is called \<open>bar_y\<close>.\<close>

record Monitor =
  ltsymbol :: string
  mfact :: rat
  nmaster :: int
  num :: int
  bar_y :: int
  mx :: int
  my :: int
  mw :: int
  mh :: int
  wx :: int
  wy :: int
  ww :: int
  wh :: int
  seltags :: nat
  sellt :: nat
  tagset :: "u32 list"
  showbar :: bool
  topbar :: bool
  clients :: "window list"
  sel :: "window option"
  stack :: "window list"
  lt :: "Layout list"

text \<open>The global variables that the handlers read and write.\<close>

record wm =
  sw :: int
  sh :: int
  bh :: int
  mons :: "Monitor list"
  selmon :: nat
  store :: "window \<Rightarrow> Client option"
  running :: bool
  motion_mon :: "nat option"

subsection \<open>config.def.h\<close>

definition borderpx :: int where
  "borderpx = 1"

definition snap :: int where
  "snap = 32"

definition cfg_showbar :: bool where
  "cfg_showbar = True"

definition cfg_topbar :: bool where
  "cfg_topbar = True"

text \<open>The nine tag names \<^verbatim>\<open>"1"\<close> to \<^verbatim>\<open>"9"\<close>, each a string of one character.\<close>

definition cfg_tags :: "string list" where
  "cfg_tags = map (\<lambda>c. [c]) ''123456789''"

definition cfg_mfact :: rat where
  "cfg_mfact = 55 / 100"

definition cfg_nmaster :: int where
  "cfg_nmaster = 1"

definition resizehints :: bool where
  "resizehints = True"

definition layouts :: "Layout list" where
  "layouts = [\<lparr>symbol = ''[]='', lt_arrange = Some Tile\<rparr>,
              \<lparr>symbol = ''><>'', lt_arrange = None\<rparr>,
              \<lparr>symbol = ''[M]'', lt_arrange = Some Monocle\<rparr>]"

text \<open>\<^verbatim>\<open>#define TAGMASK ((1 << LENGTH(tags)) - 1)\<close>\<close>

definition TAGMASK :: u32 where
  "TAGMASK = push_bit (length cfg_tags) 1 - 1"

subsection \<open>Pointers and macros\<close>

definition client :: "wm \<Rightarrow> window \<Rightarrow> Client" where
  "client s c = the (store s c)"

definition monitor :: "wm \<Rightarrow> nat \<Rightarrow> Monitor" where
  "monitor s i = mons s ! i"

text \<open>A write through a \<^verbatim>\<open>Client*\<close>; a window without a client has no such pointer.\<close>

definition upd_client :: "window \<Rightarrow> (Client \<Rightarrow> Client) \<Rightarrow> wm \<Rightarrow> wm" where
  "upd_client c f s =
     (case store s c of None \<Rightarrow> s | Some C \<Rightarrow> s\<lparr>store := (store s)(c \<mapsto> f C)\<rparr>)"

definition upd_monitor :: "nat \<Rightarrow> (Monitor \<Rightarrow> Monitor) \<Rightarrow> wm \<Rightarrow> wm" where
  "upd_monitor i f s = s\<lparr>mons := (mons s)[i := f (mons s ! i)]\<rparr>"

definition WIDTH :: "Client \<Rightarrow> int" where
  "WIDTH C = c_w C + 2 * bw C"

definition HEIGHT :: "Client \<Rightarrow> int" where
  "HEIGHT C = c_h C + 2 * bw C"

definition active_tagset :: "Monitor \<Rightarrow> u32" where
  "active_tagset m = tagset m ! seltags m"

definition sel_layout :: "Monitor \<Rightarrow> Layout" where
  "sel_layout m = lt m ! sellt m"

text \<open>\<^verbatim>\<open>#define ISVISIBLE(C) ((C->tags & C->mon->tagset[C->mon->seltags]))\<close>\<close>

definition ISVISIBLE :: "wm \<Rightarrow> window \<Rightarrow> bool" where
  "ISVISIBLE s c = (tags (client s c) AND active_tagset (monitor s (mon (client s c))) \<noteq> 0)"

section \<open>Size hints\<close>

text \<open>Conversion of a float to \<^verbatim>\<open>int\<close>: the fraction is dropped.\<close>

definition c_trunc :: "rat \<Rightarrow> int" where
  "c_trunc r = (if 0 \<le> r then \<lfloor>r\<rfloor> else \<lceil>r\<rceil>)"

text \<open>
  \<^verbatim>\<open>a < (float)p / q\<close>. A float division by zero is an infinity of the sign of \<open>p\<close>, or
  NaN for \<open>0 / 0\<close>; a finite \<open>a\<close> is below plus infinity only.
\<close>

definition flt_less_quot :: "rat \<Rightarrow> int \<Rightarrow> int \<Rightarrow> bool" where
  "flt_less_quot a p q = (if q = 0 then 0 < p else a < of_int p / of_int q)"

text \<open>The block of \<^verbatim>\<open>applysizehints\<close> under ``adjust for aspect limits''.\<close>

definition aspect_limits :: "Client \<Rightarrow> int \<times> int \<Rightarrow> int \<times> int" where
  "aspect_limits C g =
     (case g of (w, h) \<Rightarrow>
        if 0 < mina C \<and> 0 < maxa C then
          if flt_less_quot (maxa C) w h then (c_trunc (of_int h * maxa C + 1 / 2), h)
          else if flt_less_quot (mina C) h w then (w, c_trunc (of_int w * mina C + 1 / 2))
          else (w, h)
        else (w, h))"

text \<open>
  The body of the \<^verbatim>\<open>if (resizehints || c->isfloating || ...)\<close> block of \<^verbatim>\<open>applysizehints\<close>
  (ICCCM 4.1.2.3). \<^verbatim>\<open>%\<close> is C's remainder, \<open>smod\<close>.
\<close>

definition icccm_hints :: "Client \<Rightarrow> int \<times> int \<Rightarrow> int \<times> int" where
  "icccm_hints C g =
     (case g of (w0, h0) \<Rightarrow>
        let baseismin = (basew C = minw C \<and> baseh C = minh C);
            w1 = (if \<not> baseismin then w0 - basew C else w0);
            h1 = (if \<not> baseismin then h0 - baseh C else h0);
            (w2, h2) = aspect_limits C (w1, h1);
            w3 = (if baseismin then w2 - basew C else w2);
            h3 = (if baseismin then h2 - baseh C else h2);
            w4 = (if incw C \<noteq> 0 then w3 - w3 smod incw C else w3);
            h4 = (if inch C \<noteq> 0 then h3 - h3 smod inch C else h3);
            w5 = max (w4 + basew C) (minw C);
            h5 = max (h4 + baseh C) (minh C);
            w6 = (if maxw C \<noteq> 0 then min w5 (maxw C) else w5);
            h6 = (if maxh C \<noteq> 0 then min h5 (maxh C) else h5)
        in (w6, h6))"

text \<open>
  The block of \<^verbatim>\<open>applysizehints\<close> that keeps the window from lying wholly off the screen
  (\<^verbatim>\<open>interact\<close>) or wholly off the window area of its monitor; \<open>w1, h1\<close> are \<^verbatim>\<open>*w, *h\<close>
  after \<^verbatim>\<open>MAX(1, ...)\<close>.
\<close>

definition keep_inside :: "wm \<Rightarrow> Client \<Rightarrow> Monitor \<Rightarrow> bool \<Rightarrow> int \<Rightarrow> int \<Rightarrow> int \<Rightarrow> int \<Rightarrow> int \<times> int" where
  "keep_inside s C m interact x0 y0 w1 h1 =
     (if interact then
        let x1 = (if x0 > sw s then sw s - WIDTH C else x0);
            y1 = (if y0 > sh s then sh s - HEIGHT C else y0);
            x2 = (if x1 + w1 + 2 * bw C < 0 then 0 else x1);
            y2 = (if y1 + h1 + 2 * bw C < 0 then 0 else y1)
        in (x2, y2)
      else
        let x1 = (if x0 \<ge> wx m + ww m then wx m + ww m - WIDTH C else x0);
            y1 = (if y0 \<ge> wy m + wh m then wy m + wh m - HEIGHT C else y0);
            x2 = (if x1 + w1 + 2 * bw C \<le> wx m then wx m else x1);
            y2 = (if y1 + h1 + 2 * bw C \<le> wy m then wy m else y1)
        in (x2, y2))"

text \<open>
  \<^verbatim>\<open>int applysizehints(Client* c, int* x, int* y, int* w, int* h, int interact)\<close>: the
  result is the returned flag and the final values of \<^verbatim>\<open>*x, *y, *w, *h\<close>.
\<close>

definition applysizehints ::
  "wm \<Rightarrow> window \<Rightarrow> int \<Rightarrow> int \<Rightarrow> int \<Rightarrow> int \<Rightarrow> bool \<Rightarrow> bool \<times> int \<times> int \<times> int \<times> int" where
  "applysizehints s c x0 y0 w0 h0 interact =
     (let C = client s c;
          m = monitor s (mon C);
          w1 = max 1 w0;
          h1 = max 1 h0;
          (x3, y3) = keep_inside s C m interact x0 y0 w1 h1;
          h2 = (if h1 < bh s then bh s else h1);
          w2 = (if w1 < bh s then bh s else w1);
          (w3, h3) =
            (if resizehints \<or> isfloating C \<or> lt_arrange (sel_layout m) = None
             then icccm_hints C (w2, h2) else (w2, h2))
      in (x3 \<noteq> c_x C \<or> y3 \<noteq> c_y C \<or> w3 \<noteq> c_w C \<or> h3 \<noteq> c_h C, x3, y3, w3, h3))"

text \<open>\<^verbatim>\<open>void resizeclient(Client* c, int x, int y, int w, int h)\<close>\<close>

definition resizeclient :: "window \<Rightarrow> int \<Rightarrow> int \<Rightarrow> int \<Rightarrow> int \<Rightarrow> wm \<Rightarrow> wm" where
  "resizeclient c x y w h s =
     upd_client c (\<lambda>C. C\<lparr>oldx := c_x C, c_x := x, oldy := c_y C, c_y := y,
                          oldw := c_w C, c_w := w, oldh := c_h C, c_h := h\<rparr>) s"

text \<open>\<^verbatim>\<open>void resize(Client* c, int x, int y, int w, int h, int interact)\<close>\<close>

definition resize :: "window \<Rightarrow> int \<Rightarrow> int \<Rightarrow> int \<Rightarrow> int \<Rightarrow> bool \<Rightarrow> wm \<Rightarrow> wm" where
  "resize c x y w h interact s =
     (case applysizehints s c x y w h interact of
        (changed, x', y', w', h') \<Rightarrow> if changed then resizeclient c x' y' w' h' s else s)"

section \<open>Client lists and focus\<close>

text \<open>
  \<^verbatim>\<open>Client* nexttiled(Client* c)\<close>. A pointer into the client list is the rest of the list
  from that client on; \<^verbatim>\<open>NULL\<close> is the empty list.
\<close>

definition nexttiled :: "wm \<Rightarrow> window list \<Rightarrow> window list" where
  "nexttiled s cs = dropWhile (\<lambda>c. isfloating (client s c) \<or> \<not> ISVISIBLE s c) cs"

text \<open>\<^verbatim>\<open>for (t = stack; t && !ISVISIBLE(t); t = t->snext);\<close> of \<^verbatim>\<open>focus\<close> and \<^verbatim>\<open>detachstack\<close>.\<close>

definition first_visible :: "wm \<Rightarrow> window list \<Rightarrow> window option" where
  "first_visible s cs = (case dropWhile (\<lambda>c. \<not> ISVISIBLE s c) cs of [] \<Rightarrow> None | c # _ \<Rightarrow> Some c)"

text \<open>
  \<^verbatim>\<open>attach, detach, attachstack, detachstack\<close>. Unlinking removes the first occurrence of
  the client from the list of its monitor.
\<close>

definition attach :: "window \<Rightarrow> wm \<Rightarrow> wm" where
  "attach c s = upd_monitor (mon (client s c)) (\<lambda>m. m\<lparr>clients := c # clients m\<rparr>) s"

definition attachstack :: "window \<Rightarrow> wm \<Rightarrow> wm" where
  "attachstack c s = upd_monitor (mon (client s c)) (\<lambda>m. m\<lparr>stack := c # stack m\<rparr>) s"

definition detach :: "window \<Rightarrow> wm \<Rightarrow> wm" where
  "detach c s = upd_monitor (mon (client s c)) (\<lambda>m. m\<lparr>clients := remove1 c (clients m)\<rparr>) s"

definition detachstack :: "window \<Rightarrow> wm \<Rightarrow> wm" where
  "detachstack c s =
     (let i = mon (client s c);
          s1 = upd_monitor i (\<lambda>m. m\<lparr>stack := remove1 c (stack m)\<rparr>) s
      in if sel (monitor s1 i) = Some c
         then upd_monitor i (\<lambda>m. m\<lparr>sel := first_visible s1 (stack m)\<rparr>) s1
         else s1)"

text \<open>\<^verbatim>\<open>void seturgent(Client* c, int urg)\<close>\<close>

definition seturgent :: "window \<Rightarrow> bool \<Rightarrow> wm \<Rightarrow> wm" where
  "seturgent c urg s = upd_client c (\<lambda>C. C\<lparr>isurgent := urg\<rparr>) s"

text \<open>
  \<^verbatim>\<open>void focus(Client* c)\<close>. \<^verbatim>\<open>unfocus\<close>, \<^verbatim>\<open>grabbuttons\<close>, \<^verbatim>\<open>setfocus\<close> and \<^verbatim>\<open>drawbars\<close> only
  talk to the X server.
\<close>

definition focus :: "window option \<Rightarrow> wm \<Rightarrow> wm" where
  "focus c0 s =
     (let c = (if c0 = None \<or> \<not> ISVISIBLE s (the c0)
               then first_visible s (stack (monitor s (selmon s))) else c0);
          s3 = (case c of
                  None \<Rightarrow> s
                | Some d \<Rightarrow>
                    let s1 = (if mon (client s d) \<noteq> selmon s then s\<lparr>selmon := mon (client s d)\<rparr> else s);
                        s2 = (if isurgent (client s1 d) then seturgent d False s1 else s1)
                    in attachstack d (detachstack d s2))
      in upd_monitor (selmon s3) (\<lambda>m. m\<lparr>sel := c\<rparr>) s3)"

section \<open>Layouts\<close>

text \<open>\<^verbatim>\<open>void showhide(Client* c)\<close>, called on a focus stack.\<close>

fun showhide :: "window list \<Rightarrow> wm \<Rightarrow> wm" where
  "showhide [] s = s"
| "showhide (c # cs) s =
     (if ISVISIBLE s c then
        let C = client s c;
            s1 = (if (lt_arrange (sel_layout (monitor s (mon C))) = None \<or> isfloating C)
                     \<and> \<not> isfullscreen C
                  then resize c (c_x C) (c_y C) (c_w C) (c_h C) False s else s)
        in showhide cs s1
      else showhide cs s)"

text \<open>
  The number of tiled clients, as the first loop of \<^verbatim>\<open>tile\<close> counts them with
  \<^verbatim>\<open>nexttiled\<close>.
\<close>

definition count_tiled :: "wm \<Rightarrow> window list \<Rightarrow> u32" where
  "count_tiled s cs = of_nat (length (filter (\<lambda>c. \<not> (isfloating (client s c) \<or> \<not> ISVISIBLE s c)) cs))"

text \<open>
  The second loop of \<^verbatim>\<open>tile\<close> over the client list of monitor \<open>mi\<close>:
  \<^verbatim>\<open>for (i = my = ty = 0, c = nexttiled(m->clients); c; c = nexttiled(c->next), i++)\<close>.
  The locals \<^verbatim>\<open>i, n, h, mw, my, ty\<close> are \<^verbatim>\<open>unsigned int\<close>: an \<^verbatim>\<open>int\<close> operand is converted
  to unsigned, and the unsigned argument of \<^verbatim>\<open>resize\<close> is read back as an \<^verbatim>\<open>int\<close>.
\<close>

fun tile_loop :: "nat \<Rightarrow> u32 \<Rightarrow> u32 \<Rightarrow> window list \<Rightarrow> u32 \<Rightarrow> u32 \<Rightarrow> u32 \<Rightarrow> wm \<Rightarrow> wm" where
  "tile_loop mi n mwid [] i myy tyy s = s"
| "tile_loop mi n mwid (c # cs) i myy tyy s =
     (if isfloating (client s c) \<or> \<not> ISVISIBLE s c then tile_loop mi n mwid cs i myy tyy s
      else
        let m = monitor s mi; b = bw (client s c) in
        if i < word_of_int (nmaster m) then
          let h = (word_of_int (wh m) - myy) div (min n (word_of_int (nmaster m)) - i);
              s1 = resize c (wx m) (sint (word_of_int (wy m) + myy))
                     (sint (mwid - word_of_int (2 * b))) (sint (h - word_of_int (2 * b))) False s
          in tile_loop mi n mwid cs (i + 1) (myy + word_of_int (HEIGHT (client s1 c))) tyy s1
        else
          let h = (word_of_int (wh m) - tyy) div (n - i);
              s1 = resize c (sint (word_of_int (wx m) + mwid)) (sint (word_of_int (wy m) + tyy))
                     (sint (word_of_int (ww m) - mwid - word_of_int (2 * b)))
                     (sint (h - word_of_int (2 * b))) False s
          in tile_loop mi n mwid cs (i + 1) myy (tyy + word_of_int (HEIGHT (client s1 c))) s1)"

text \<open>\<^verbatim>\<open>void tile(Monitor* m)\<close>\<close>

definition tile :: "nat \<Rightarrow> wm \<Rightarrow> wm" where
  "tile mi s =
     (let m = monitor s mi;
          n = count_tiled s (clients m)
      in if n = 0 then s
         else
           let mwid = (if n > word_of_int (nmaster m)
                       then (if nmaster m \<noteq> 0 then word_of_int (c_trunc (of_int (ww m) * mfact m)) else 0)
                       else word_of_int (ww m))
           in tile_loop mi n mwid (clients m) 0 0 0 s)"

text \<open>\<^verbatim>\<open>snprintf(..., "[%d]", n)\<close>: decimal digits of a number.\<close>

fun decimal :: "nat \<Rightarrow> string" where
  "decimal n = (if n < 10 then [char_of (48 + n)] else decimal (n div 10) @ [char_of (48 + n mod 10)])"

declare decimal.simps [simp del]

text \<open>The loop of \<^verbatim>\<open>monocle\<close> over the tiled clients.\<close>

fun monocle_loop :: "nat \<Rightarrow> window list \<Rightarrow> wm \<Rightarrow> wm" where
  "monocle_loop mi [] s = s"
| "monocle_loop mi (c # cs) s =
     (if isfloating (client s c) \<or> \<not> ISVISIBLE s c then monocle_loop mi cs s
      else
        let m = monitor s mi; b = bw (client s c)
        in monocle_loop mi cs (resize c (wx m) (wy m) (ww m - 2 * b) (wh m - 2 * b) False s))"

text \<open>\<^verbatim>\<open>void monocle(Monitor* m)\<close>; \<^verbatim>\<open>ltsymbol\<close> holds 15 characters.\<close>

definition monocle :: "nat \<Rightarrow> wm \<Rightarrow> wm" where
  "monocle mi s =
     (let n = length (filter (ISVISIBLE s) (clients (monitor s mi)));
          s1 = (if n > 0
                then upd_monitor mi (\<lambda>m. m\<lparr>ltsymbol := take 15 (''['' @ decimal n @ '']'')\<rparr>) s
                else s)
      in monocle_loop mi (clients (monitor s1 mi)) s1)"

text \<open>\<^verbatim>\<open>void arrangemon(Monitor* m)\<close>\<close>

definition arrangemon :: "nat \<Rightarrow> wm \<Rightarrow> wm" where
  "arrangemon mi s =
     (let s1 = upd_monitor mi (\<lambda>m. m\<lparr>ltsymbol := take 16 (symbol (sel_layout m))\<rparr>) s
      in case lt_arrange (sel_layout (monitor s1 mi)) of
           None \<Rightarrow> s1
         | Some Tile \<Rightarrow> tile mi s1
         | Some Monocle \<Rightarrow> monocle mi s1)"

text \<open>
  \<^verbatim>\<open>void arrange(Monitor* m)\<close>; \<^verbatim>\<open>restack\<close> only talks to the X server. The loops over all
  monitors run over the positions \<open>0 ..< length mons\<close>.
\<close>

fun showhide_all :: "nat list \<Rightarrow> wm \<Rightarrow> wm" where
  "showhide_all [] s = s"
| "showhide_all (i # is) s = showhide_all is (showhide (stack (monitor s i)) s)"

fun arrangemon_all :: "nat list \<Rightarrow> wm \<Rightarrow> wm" where
  "arrangemon_all [] s = s"
| "arrangemon_all (i # is) s = arrangemon_all is (arrangemon i s)"

definition arrange :: "nat option \<Rightarrow> wm \<Rightarrow> wm" where
  "arrange mo s =
     (case mo of
        Some mi \<Rightarrow> arrangemon mi (showhide (stack (monitor s mi)) s)
      | None \<Rightarrow> arrangemon_all [0 ..< length (mons s)] (showhide_all [0 ..< length (mons s)] s))"

section \<open>Tags and views\<close>

text \<open>\<^verbatim>\<open>void view(const Arg* arg)\<close>, with \<^verbatim>\<open>arg->ui\<close> as argument.\<close>

definition view :: "u32 \<Rightarrow> wm \<Rightarrow> wm" where
  "view ui s =
     (if ui AND TAGMASK = active_tagset (monitor s (selmon s)) then s
      else
        let s1 = upd_monitor (selmon s) (\<lambda>m. m\<lparr>seltags := seltags m XOR 1\<rparr>) s;
            s2 = (if ui AND TAGMASK \<noteq> 0
                  then upd_monitor (selmon s1)
                         (\<lambda>m. m\<lparr>tagset := (tagset m)[seltags m := ui AND TAGMASK]\<rparr>) s1
                  else s1);
            s3 = focus None s2
        in arrange (Some (selmon s3)) s3)"

text \<open>\<^verbatim>\<open>void toggleview(const Arg* arg)\<close>\<close>

definition toggleview :: "u32 \<Rightarrow> wm \<Rightarrow> wm" where
  "toggleview ui s =
     (let newtagset = active_tagset (monitor s (selmon s)) XOR (ui AND TAGMASK)
      in if newtagset \<noteq> 0 then
           let s1 = upd_monitor (selmon s) (\<lambda>m. m\<lparr>tagset := (tagset m)[seltags m := newtagset]\<rparr>) s;
               s2 = focus None s1
           in arrange (Some (selmon s2)) s2
         else s)"

text \<open>\<^verbatim>\<open>void tag(const Arg* arg)\<close>\<close>

definition tag :: "u32 \<Rightarrow> wm \<Rightarrow> wm" where
  "tag ui s =
     (case sel (monitor s (selmon s)) of
        None \<Rightarrow> s
      | Some c \<Rightarrow>
          if ui AND TAGMASK \<noteq> 0 then
            let s1 = upd_client c (\<lambda>C. C\<lparr>tags := ui AND TAGMASK\<rparr>) s;
                s2 = focus None s1
            in arrange (Some (selmon s2)) s2
          else s)"

text \<open>\<^verbatim>\<open>void toggletag(const Arg* arg)\<close>\<close>

definition toggletag :: "u32 \<Rightarrow> wm \<Rightarrow> wm" where
  "toggletag ui s =
     (case sel (monitor s (selmon s)) of
        None \<Rightarrow> s
      | Some c \<Rightarrow>
          let newtags = tags (client s c) XOR (ui AND TAGMASK)
          in if newtags \<noteq> 0 then
               let s1 = upd_client c (\<lambda>C. C\<lparr>tags := newtags\<rparr>) s;
                   s2 = focus None s1
               in arrange (Some (selmon s2)) s2
             else s)"

section \<open>Zoom\<close>

text \<open>\<^verbatim>\<open>void pop(Client* c)\<close>\<close>

definition pop :: "window \<Rightarrow> wm \<Rightarrow> wm" where
  "pop c s =
     (let s1 = focus (Some c) (attach c (detach c s))
      in arrange (Some (mon (client s1 c))) s1)"

text \<open>
  \<^verbatim>\<open>void zoom(const Arg* arg)\<close>. With no selected client and a tiled client on the monitor
  the source calls \<^verbatim>\<open>pop(NULL)\<close>, which dereferences \<^verbatim>\<open>NULL\<close>; the model stops there and
  leaves the state.
\<close>

definition zoom :: "wm \<Rightarrow> wm" where
  "zoom s =
     (let m = monitor s (selmon s); c = sel m
      in if lt_arrange (sel_layout m) = None \<or> (c \<noteq> None \<and> isfloating (client s (the c))) then s
         else
           case nexttiled s (clients m) of
             [] \<Rightarrow> (case c of None \<Rightarrow> s | Some d \<Rightarrow> pop d s)
           | t # rest \<Rightarrow>
               if c = Some t then
                 (case nexttiled s rest of [] \<Rightarrow> s | d # _ \<Rightarrow> pop d s)
               else (case c of None \<Rightarrow> s | Some d \<Rightarrow> pop d s))"

section \<open>Fullscreen\<close>

text \<open>\<^verbatim>\<open>void setfullscreen(Client* c, int fullscreen)\<close>\<close>

definition setfullscreen :: "window \<Rightarrow> bool \<Rightarrow> wm \<Rightarrow> wm" where
  "setfullscreen c fullscreen s =
     (let C = client s c; m = monitor s (mon C)
      in if fullscreen \<and> \<not> isfullscreen C then
           resizeclient c (mx m) (my m) (mw m) (mh m)
             (upd_client c (\<lambda>C. C\<lparr>isfullscreen := True, oldstate := isfloating C,
                                   oldbw := bw C, bw := 0, isfloating := True\<rparr>) s)
         else if \<not> fullscreen \<and> isfullscreen C then
           let s1 = upd_client c (\<lambda>C. C\<lparr>isfullscreen := False, isfloating := oldstate C,
                                          bw := oldbw C, c_x := oldx C, c_y := oldy C,
                                          c_w := oldw C, c_h := oldh C\<rparr>) s;
               C1 = client s1 c;
               s2 = resizeclient c (c_x C1) (c_y C1) (c_w C1) (c_h C1) s1
           in arrange (Some (mon (client s2 c))) s2
         else s)"

section \<open>ConfigureRequest\<close>

text \<open>
  \<^verbatim>\<open>Client* wintoclient(Window w)\<close>: the search through the client lists of all monitors.
\<close>

definition wintoclient :: "wm \<Rightarrow> window \<Rightarrow> window option" where
  "wintoclient s w = (if list_ex (\<lambda>m. List.member (clients m) w) (mons s) then Some w else None)"

text \<open>The fields of \<^verbatim>\<open>XConfigureRequestEvent\<close> that the handler reads.\<close>

record XConfigureRequestEvent =
  cr_window :: window
  cr_value_mask :: "64 word"
  cr_x :: int
  cr_y :: int
  cr_width :: int
  cr_height :: int
  cr_border_width :: int

text \<open>The bits of \<^verbatim>\<open>value_mask\<close>, from \<^verbatim>\<open>X11/X.h\<close>.\<close>

definition CWX :: "64 word" where
  "CWX = 1"

definition CWY :: "64 word" where
  "CWY = 2"

definition CWWidth :: "64 word" where
  "CWWidth = 4"

definition CWHeight :: "64 word" where
  "CWHeight = 8"

definition CWBorderWidth :: "64 word" where
  "CWBorderWidth = 16"

text \<open>
  \<^verbatim>\<open>void configurerequest(XEvent* e)\<close>. For a window without a client the request is
  passed on to the X server.
\<close>

definition configurerequest :: "XConfigureRequestEvent \<Rightarrow> wm \<Rightarrow> wm" where
  "configurerequest ev s =
     (case wintoclient s (cr_window ev) of
        None \<Rightarrow> s
      | Some c \<Rightarrow>
          if cr_value_mask ev AND CWBorderWidth \<noteq> 0 then
            upd_client c (\<lambda>C. C\<lparr>bw := cr_border_width ev\<rparr>) s
          else if isfloating (client s c)
                  \<or> lt_arrange (sel_layout (monitor s (selmon s))) = None then
            let m = monitor s (mon (client s c));
                s1 = (if cr_value_mask ev AND CWX \<noteq> 0
                      then upd_client c (\<lambda>C. C\<lparr>oldx := c_x C, c_x := mx m + cr_x ev\<rparr>) s else s);
                s2 = (if cr_value_mask ev AND CWY \<noteq> 0
                      then upd_client c (\<lambda>C. C\<lparr>oldy := c_y C, c_y := my m + cr_y ev\<rparr>) s1 else s1);
                s3 = (if cr_value_mask ev AND CWWidth \<noteq> 0
                      then upd_client c (\<lambda>C. C\<lparr>oldw := c_w C, c_w := cr_width ev\<rparr>) s2 else s2);
                s4 = (if cr_value_mask ev AND CWHeight \<noteq> 0
                      then upd_client c (\<lambda>C. C\<lparr>oldh := c_h C, c_h := cr_height ev\<rparr>) s3 else s3);
                s5 = upd_client c
                       (\<lambda>C. if c_x C + c_w C > mx m + mw m \<and> isfloating C
                            then C\<lparr>c_x := mx m + (mw m sdiv 2 - WIDTH C sdiv 2)\<rparr> else C) s4
            in upd_client c
                 (\<lambda>C. if c_y C + c_h C > my m + mh m \<and> isfloating C
                      then C\<lparr>c_y := my m + (mh m sdiv 2 - HEIGHT C sdiv 2)\<rparr> else C) s5
          else s)"

section \<open>Monitors\<close>

text \<open>
  The windows an event can name: the root window, the bar window of the monitor at a
  position of \<^verbatim>\<open>mons\<close> (\<^verbatim>\<open>updatebars\<close> gives every monitor one), or any other window.
  Bar windows and the root window never have clients.
\<close>

datatype xwindow = Root | Barwin nat | Win window

text \<open>\<^verbatim>\<open>#define INTERSECT(x,y,w,h,m)\<close>\<close>

definition INTERSECT :: "int \<Rightarrow> int \<Rightarrow> int \<Rightarrow> int \<Rightarrow> Monitor \<Rightarrow> int" where
  "INTERSECT x y w h m =
     max 0 (min (x + w) (wx m + ww m) - max x (wx m))
     * max 0 (min (y + h) (wy m + wh m) - max y (wy m))"

text \<open>
  \<^verbatim>\<open>Monitor* recttomon(int x, int y, int w, int h)\<close>: the loop over \<^verbatim>\<open>mons\<close> carries the
  position \<open>i\<close> of the monitor at hand, the largest area so far and its monitor \<open>r\<close>.
\<close>

fun recttomon_loop :: "int \<Rightarrow> int \<Rightarrow> int \<Rightarrow> int \<Rightarrow> Monitor list \<Rightarrow> nat \<Rightarrow> int \<Rightarrow> nat \<Rightarrow> nat" where
  "recttomon_loop x y w h [] i area r = r"
| "recttomon_loop x y w h (m # ms) i area r =
     (let a = INTERSECT x y w h m
      in if a > area then recttomon_loop x y w h ms (i + 1) a i
         else recttomon_loop x y w h ms (i + 1) area r)"

definition recttomon :: "wm \<Rightarrow> int \<Rightarrow> int \<Rightarrow> int \<Rightarrow> int \<Rightarrow> nat" where
  "recttomon s x y w h = recttomon_loop x y w h (mons s) 0 0 (selmon s)"

text \<open>
  \<^verbatim>\<open>Monitor* wintomon(Window w)\<close>; \<open>ptr\<close> is what \<^verbatim>\<open>getrootptr\<close> answers, \<open>None\<close> when the
  pointer is on another screen.
\<close>

definition wintomon :: "wm \<Rightarrow> xwindow \<Rightarrow> (int \<times> int) option \<Rightarrow> nat" where
  "wintomon s w ptr =
     (case w of
        Root \<Rightarrow> (case ptr of Some (x, y) \<Rightarrow> recttomon s x y 1 1 | None \<Rightarrow> selmon s)
      | Barwin i \<Rightarrow> if i < length (mons s) then i else selmon s
      | Win c \<Rightarrow> (case wintoclient s c of Some d \<Rightarrow> mon (client s d) | None \<Rightarrow> selmon s))"

text \<open>\<^verbatim>\<open>Monitor* dirtomon(int dir)\<close>\<close>

definition dirtomon :: "wm \<Rightarrow> int \<Rightarrow> nat" where
  "dirtomon s dir =
     (if dir > 0 then (if selmon s + 1 < length (mons s) then selmon s + 1 else 0)
      else if selmon s = 0 then length (mons s) - 1
      else selmon s - 1)"

text \<open>\<^verbatim>\<open>void updatebarpos(Monitor* m)\<close>, on the monitor itself; the bar height is a global.\<close>

definition updatebarpos :: "int \<Rightarrow> Monitor \<Rightarrow> Monitor" where
  "updatebarpos barh m =
     (let m1 = m\<lparr>wy := my m, wh := mh m\<rparr>
      in if showbar m1 then
           let m2 = m1\<lparr>wh := wh m1 - barh\<rparr>;
               m3 = m2\<lparr>bar_y := (if topbar m2 then wy m2 else wy m2 + wh m2)\<rparr>
           in m3\<lparr>wy := (if topbar m3 then wy m3 + barh else wy m3)\<rparr>
         else m1\<lparr>bar_y := - barh\<rparr>)"

text \<open>\<^verbatim>\<open>Monitor* createmon(void)\<close>: \<^verbatim>\<open>ecalloc\<close> zeroes what is not assigned.\<close>

definition createmon :: Monitor where
  "createmon = \<lparr>ltsymbol = take 16 (symbol (layouts ! 0)), mfact = cfg_mfact, nmaster = cfg_nmaster,
     num = 0, bar_y = 0, mx = 0, my = 0, mw = 0, mh = 0, wx = 0, wy = 0, ww = 0, wh = 0,
     seltags = 0, sellt = 0, tagset = [1, 1], showbar = cfg_showbar, topbar = cfg_topbar,
     clients = [], sel = None, stack = [],
     lt = [layouts ! 0, layouts ! (1 mod length layouts)]\<rparr>"

section \<open>Actions bound to keys and buttons\<close>

text \<open>\<^verbatim>\<open>void togglefloating(const Arg* arg)\<close>\<close>

definition togglefloating :: "wm \<Rightarrow> wm" where
  "togglefloating s =
     (case sel (monitor s (selmon s)) of
        None \<Rightarrow> s
      | Some c \<Rightarrow>
          if isfullscreen (client s c) then s
          else
            let s1 = upd_client c (\<lambda>C. C\<lparr>isfloating := (\<not> isfloating C \<or> isfixed C)\<rparr>) s;
                C = client s1 c;
                s2 = (if isfloating C then resize c (c_x C) (c_y C) (c_w C) (c_h C) False s1 else s1)
            in arrange (Some (selmon s2)) s2)"

text \<open>
  \<^verbatim>\<open>void setlayout(const Arg* arg)\<close>; the argument is \<^verbatim>\<open>arg->v\<close>, \<open>None\<close> for a null
  pointer. Two pointers into the table \<^verbatim>\<open>layouts\<close> are equal when the entries are.
\<close>

definition setlayout :: "Layout option \<Rightarrow> wm \<Rightarrow> wm" where
  "setlayout v s =
     (let s1 = (if v = None \<or> the v \<noteq> sel_layout (monitor s (selmon s))
                then upd_monitor (selmon s) (\<lambda>m. m\<lparr>sellt := sellt m XOR 1\<rparr>) s else s);
          s2 = (case v of
                  None \<Rightarrow> s1
                | Some l \<Rightarrow> upd_monitor (selmon s1) (\<lambda>m. m\<lparr>lt := (lt m)[sellt m := l]\<rparr>) s1);
          s3 = upd_monitor (selmon s2) (\<lambda>m. m\<lparr>ltsymbol := take 16 (symbol (sel_layout m))\<rparr>) s2
      in if sel (monitor s3 (selmon s3)) \<noteq> None then arrange (Some (selmon s3)) s3 else s3)"

text \<open>\<^verbatim>\<open>void setmfact(const Arg* arg)\<close>, with \<^verbatim>\<open>arg->f\<close> as argument.\<close>

definition setmfact :: "rat \<Rightarrow> wm \<Rightarrow> wm" where
  "setmfact f0 s =
     (if lt_arrange (sel_layout (monitor s (selmon s))) = None then s
      else
        let f = (if f0 < 1 then f0 + mfact (monitor s (selmon s)) else f0 - 1)
        in if f < 1 / 10 \<or> f > 9 / 10 then s
           else
             let s1 = upd_monitor (selmon s) (\<lambda>m. m\<lparr>mfact := f\<rparr>) s
             in arrange (Some (selmon s1)) s1)"

text \<open>\<^verbatim>\<open>void incnmaster(const Arg* arg)\<close>, with \<^verbatim>\<open>arg->i\<close> as argument.\<close>

definition incnmaster :: "int \<Rightarrow> wm \<Rightarrow> wm" where
  "incnmaster i s =
     (let s1 = upd_monitor (selmon s) (\<lambda>m. m\<lparr>nmaster := max (nmaster m + i) 0\<rparr>) s
      in arrange (Some (selmon s1)) s1)"

text \<open>\<^verbatim>\<open>void togglebar(const Arg* arg)\<close>\<close>

definition togglebar :: "wm \<Rightarrow> wm" where
  "togglebar s =
     (let s1 = upd_monitor (selmon s) (\<lambda>m. updatebarpos (bh s) (m\<lparr>showbar := \<not> showbar m\<rparr>)) s
      in arrange (Some (selmon s1)) s1)"

text \<open>\<^verbatim>\<open>void focusmon(const Arg* arg)\<close>\<close>

definition focusmon :: "int \<Rightarrow> wm \<Rightarrow> wm" where
  "focusmon i s =
     (if length (mons s) \<le> 1 then s
      else
        let m = dirtomon s i
        in if m = selmon s then s else focus None (s\<lparr>selmon := m\<rparr>))"

text \<open>
  \<^verbatim>\<open>void focusstack(const Arg* arg)\<close>. \<^verbatim>\<open>selmon->sel->next\<close> is the client list after the
  selected client, and the backwards search walks the list up to the selected client.
\<close>

definition last_visible :: "wm \<Rightarrow> window list \<Rightarrow> window option" where
  "last_visible s cs = (case filter (ISVISIBLE s) cs of [] \<Rightarrow> None | c # r \<Rightarrow> Some (last (c # r)))"

definition focusstack :: "int \<Rightarrow> wm \<Rightarrow> wm" where
  "focusstack i s =
     (case sel (monitor s (selmon s)) of
        None \<Rightarrow> s
      | Some d \<Rightarrow>
          let cs = clients (monitor s (selmon s));
              c = (if i > 0 then
                     (case first_visible s (tl (dropWhile (\<lambda>x. x \<noteq> d) cs)) of
                        None \<Rightarrow> first_visible s cs
                      | Some e \<Rightarrow> Some e)
                   else
                     (case last_visible s (takeWhile (\<lambda>x. x \<noteq> d) cs) of
                        None \<Rightarrow> last_visible s (dropWhile (\<lambda>x. x \<noteq> d) cs)
                      | Some e \<Rightarrow> Some e))
          in case c of None \<Rightarrow> s | Some e \<Rightarrow> focus (Some e) s)"

text \<open>\<^verbatim>\<open>void sendmon(Client* c, Monitor* m)\<close>\<close>

definition sendmon :: "window \<Rightarrow> nat \<Rightarrow> wm \<Rightarrow> wm" where
  "sendmon c m s =
     (if mon (client s c) = m then s
      else
        let s1 = detachstack c (detach c s);
            s2 = upd_client c (\<lambda>C. C\<lparr>mon := m\<rparr>) s1;
            s3 = upd_client c (\<lambda>C. C\<lparr>tags := active_tagset (monitor s2 m)\<rparr>) s2;
            s4 = attachstack c (attach c s3)
        in arrange None (focus None s4))"

text \<open>\<^verbatim>\<open>void tagmon(const Arg* arg)\<close>\<close>

definition tagmon :: "int \<Rightarrow> wm \<Rightarrow> wm" where
  "tagmon i s =
     (case sel (monitor s (selmon s)) of
        None \<Rightarrow> s
      | Some c \<Rightarrow> if length (mons s) \<le> 1 then s else sendmon c (dirtomon s i) s)"

text \<open>\<^verbatim>\<open>void quit(const Arg* arg)\<close>\<close>

definition quit :: "wm \<Rightarrow> wm" where
  "quit s = s\<lparr>running := False\<rparr>"

section \<open>Managing windows\<close>

text \<open>
  \<^verbatim>\<open>XSizeHints\<close> as \<^verbatim>\<open>XGetWMNormalHints\<close> fills it: the bits \<^verbatim>\<open>PBaseSize, PMinSize,
  PResizeInc, PMaxSize, PAspect\<close> of \<^verbatim>\<open>flags\<close> and the fields they guard.
\<close>

record XSizeHints =
  PBaseSize :: bool
  PMinSize :: bool
  PResizeInc :: bool
  PMaxSize :: bool
  PAspect :: bool
  base_width :: int
  base_height :: int
  min_width :: int
  min_height :: int
  width_inc :: int
  height_inc :: int
  max_width :: int
  max_height :: int
  min_aspect_x :: int
  min_aspect_y :: int
  max_aspect_x :: int
  max_aspect_y :: int

text \<open>
  \<^verbatim>\<open>void updatesizehints(Client* c)\<close>; \<open>None\<close> when \<^verbatim>\<open>XGetWMNormalHints\<close> fails, and then
  no flag counts as set. The aspect quotients are float divisions; a division by zero
  (an infinity or NaN in C) is outside the model.
\<close>

definition updatesizehints :: "XSizeHints option \<Rightarrow> Client \<Rightarrow> Client" where
  "updatesizehints hints C =
     (let has = (\<lambda>flag. case hints of None \<Rightarrow> False | Some z \<Rightarrow> flag z);
          z = the hints;
          C1 = (if has PBaseSize then C\<lparr>basew := base_width z, baseh := base_height z\<rparr>
                else if has PMinSize then C\<lparr>basew := min_width z, baseh := min_height z\<rparr>
                else C\<lparr>basew := 0, baseh := 0\<rparr>);
          C2 = (if has PResizeInc then C1\<lparr>incw := width_inc z, inch := height_inc z\<rparr>
                else C1\<lparr>incw := 0, inch := 0\<rparr>);
          C3 = (if has PMaxSize then C2\<lparr>maxw := max_width z, maxh := max_height z\<rparr>
                else C2\<lparr>maxw := 0, maxh := 0\<rparr>);
          C4 = (if has PMinSize then C3\<lparr>minw := min_width z, minh := min_height z\<rparr>
                else if has PBaseSize then C3\<lparr>minw := base_width z, minh := base_height z\<rparr>
                else C3\<lparr>minw := 0, minh := 0\<rparr>);
          C5 = (if has PAspect
                then C4\<lparr>mina := of_int (min_aspect_y z) / of_int (min_aspect_x z),
                        maxa := of_int (max_aspect_x z) / of_int (max_aspect_y z)\<rparr>
                else C4\<lparr>maxa := 0, mina := 0\<rparr>)
      in C5\<lparr>isfixed := (maxw C5 \<noteq> 0 \<and> maxh C5 \<noteq> 0 \<and> maxw C5 = minw C5 \<and> maxh C5 = minh C5)\<rparr>)"

text \<open>
  \<^verbatim>\<open>XWMHints\<close>: the bits \<^verbatim>\<open>XUrgencyHint\<close> and \<^verbatim>\<open>InputHint\<close> of \<^verbatim>\<open>flags\<close>, and \<^verbatim>\<open>input\<close>.
\<close>

record XWMHints =
  XUrgencyHint :: bool
  InputHint :: bool
  input :: bool

text \<open>\<^verbatim>\<open>void updatewmhints(Client* c)\<close>; \<open>None\<close> when \<^verbatim>\<open>XGetWMHints\<close> returns \<^verbatim>\<open>NULL\<close>.\<close>

definition updatewmhints :: "XWMHints option \<Rightarrow> window \<Rightarrow> wm \<Rightarrow> wm" where
  "updatewmhints wmh c s =
     (case wmh of
        None \<Rightarrow> s
      | Some h \<Rightarrow>
          let s1 = (if sel (monitor s (selmon s)) = Some c \<and> XUrgencyHint h then s
                    else upd_client c (\<lambda>C. C\<lparr>isurgent := XUrgencyHint h\<rparr>) s)
          in upd_client c (\<lambda>C. C\<lparr>neverfocus := (if InputHint h then \<not> input h else False)\<rparr>) s1)"

text \<open>
  \<^verbatim>\<open>void updatewindowtype(Client* c)\<close>: \<open>fs\<close> says that the property \<^verbatim>\<open>_NET_WM_STATE\<close> of
  the window is \<^verbatim>\<open>_NET_WM_STATE_FULLSCREEN\<close>, \<open>dialog\<close> that \<^verbatim>\<open>_NET_WM_WINDOW_TYPE\<close> is
  \<^verbatim>\<open>_NET_WM_WINDOW_TYPE_DIALOG\<close>.
\<close>

definition updatewindowtype :: "bool \<Rightarrow> bool \<Rightarrow> window \<Rightarrow> wm \<Rightarrow> wm" where
  "updatewindowtype fs dialog c s =
     (let s1 = (if fs then setfullscreen c True s else s)
      in if dialog then upd_client c (\<lambda>C. C\<lparr>isfloating := True\<rparr>) s1 else s1)"

text \<open>\<^verbatim>\<open>Rule\<close> and the table \<^verbatim>\<open>rules\<close> of config.def.h; \<open>None\<close> is a null pointer.\<close>

record Rule =
  r_class :: "string option"
  r_instance :: "string option"
  r_title :: "string option"
  r_tags :: u32
  r_isfloating :: bool
  r_monitor :: int

definition rules :: "Rule list" where
  "rules = [\<lparr>r_class = Some ''Gimp'', r_instance = None, r_title = None, r_tags = 0,
              r_isfloating = True, r_monitor = - 1\<rparr>,
            \<lparr>r_class = Some ''Firefox'', r_instance = None, r_title = None, r_tags = push_bit 8 1,
              r_isfloating = False, r_monitor = - 1\<rparr>]"

text \<open>\<^verbatim>\<open>!r->title || strstr(c->name, r->title)\<close>\<close>

definition rule_matches :: "string option \<Rightarrow> string \<Rightarrow> bool" where
  "rule_matches pat str = (case pat of None \<Rightarrow> True | Some p \<Rightarrow> sublist p str)"

text \<open>\<^verbatim>\<open>for (m = mons; m && m->num != r->monitor; m = m->next);\<close>\<close>

definition monitor_numbered :: "wm \<Rightarrow> int \<Rightarrow> nat option" where
  "monitor_numbered s n =
     (case dropWhile (\<lambda>i. num (monitor s i) \<noteq> n) [0 ..< length (mons s)] of
        [] \<Rightarrow> None | i # _ \<Rightarrow> Some i)"

text \<open>
  The loop of \<^verbatim>\<open>applyrules\<close> over a rule table; \<open>name\<close> is \<^verbatim>\<open>c->name\<close>, and \<open>cls\<close>, \<open>inst\<close>
  are the class and instance of the window or \<^verbatim>\<open>broken\<close>.
\<close>

fun applyrules_loop :: "Rule list \<Rightarrow> string \<Rightarrow> string \<Rightarrow> string \<Rightarrow> window \<Rightarrow> wm \<Rightarrow> wm" where
  "applyrules_loop [] name cls inst c s = s"
| "applyrules_loop (r # rs) name cls inst c s =
     (if rule_matches (r_title r) name \<and> rule_matches (r_class r) cls
         \<and> rule_matches (r_instance r) inst
      then
        let s1 = upd_client c (\<lambda>C. C\<lparr>isfloating := r_isfloating r, tags := tags C OR r_tags r\<rparr>) s;
            s2 = (case monitor_numbered s1 (r_monitor r) of
                    None \<Rightarrow> s1
                  | Some m \<Rightarrow> upd_client c (\<lambda>C. C\<lparr>mon := m\<rparr>) s1)
        in applyrules_loop rs name cls inst c s2
      else applyrules_loop rs name cls inst c s)"

text \<open>
  \<^verbatim>\<open>void applyrules(Client* c)\<close>, over a rule table; \<open>cls\<close> and \<open>inst\<close> are what
  \<^verbatim>\<open>XGetClassHint\<close> answers.
\<close>

definition applyrules_with ::
  "Rule list \<Rightarrow> string \<Rightarrow> string option \<Rightarrow> string option \<Rightarrow> window \<Rightarrow> wm \<Rightarrow> wm" where
  "applyrules_with rs name cls inst c s =
     (let s1 = upd_client c (\<lambda>C. C\<lparr>isfloating := False, tags := 0\<rparr>) s;
          s2 = applyrules_loop rs name
                 (case cls of None \<Rightarrow> ''broken'' | Some x \<Rightarrow> x)
                 (case inst of None \<Rightarrow> ''broken'' | Some x \<Rightarrow> x) c s1
      in upd_client c
           (\<lambda>C. C\<lparr>tags := (if tags C AND TAGMASK \<noteq> 0 then tags C AND TAGMASK
                            else active_tagset (monitor s2 (mon C)))\<rparr>) s2)"

definition applyrules :: "string \<Rightarrow> string option \<Rightarrow> string option \<Rightarrow> window \<Rightarrow> wm \<Rightarrow> wm" where
  "applyrules = applyrules_with rules"

text \<open>
  What the X server tells \<^verbatim>\<open>manage\<close> about the window: the attributes \<^verbatim>\<open>wa\<close>, the title
  as \<^verbatim>\<open>gettextprop\<close> reads it (empty when it reads none), the window it is transient for
  (\<open>None\<close> when \<^verbatim>\<open>XGetTransientForHint\<close> fails or names no window), class and instance, the window state and
  type, the size hints and the WM hints.
\<close>

record XWindowInfo =
  wa_x :: int
  wa_y :: int
  wa_width :: int
  wa_height :: int
  wa_border_width :: int
  wi_name :: string
  wi_trans :: "window option"
  wi_class :: "string option"
  wi_instance :: "string option"
  wi_fullscreen :: bool
  wi_dialog :: bool
  wi_size :: "XSizeHints option"
  wi_wmhints :: "XWMHints option"

text \<open>
  \<^verbatim>\<open>void manage(Window w, XWindowAttributes* wa)\<close>, over a rule table. The new client is
  zeroed by \<^verbatim>\<open>ecalloc\<close>; \<^verbatim>\<open>updatetitle\<close> names a window without title \<^verbatim>\<open>broken\<close>.
\<close>

definition manage_with :: "Rule list \<Rightarrow> window \<Rightarrow> XWindowInfo \<Rightarrow> wm \<Rightarrow> wm" where
  "manage_with rs w wi s =
     (let C0 = \<lparr>mina = 0, maxa = 0, c_x = wa_x wi, c_y = wa_y wi, c_w = wa_width wi,
                c_h = wa_height wi, oldx = wa_x wi, oldy = wa_y wi, oldw = wa_width wi,
                oldh = wa_height wi, basew = 0, baseh = 0, incw = 0, inch = 0, maxw = 0,
                maxh = 0, minw = 0, minh = 0, bw = 0, oldbw = wa_border_width wi, tags = 0,
                isfixed = False, isfloating = False, isurgent = False, neverfocus = False,
                oldstate = False, isfullscreen = False, mon = 0\<rparr>;
          s0 = s\<lparr>store := (store s)(w \<mapsto> C0)\<rparr>;
          name = (if wi_name wi = [] then ''broken'' else wi_name wi);
          t = (case wi_trans wi of None \<Rightarrow> None | Some tr \<Rightarrow> wintoclient s0 tr);
          s1 = (case t of
                  Some tc \<Rightarrow> upd_client w (\<lambda>C. C\<lparr>mon := mon (client s0 tc), tags := tags (client s0 tc)\<rparr>) s0
                | None \<Rightarrow> applyrules_with rs name (wi_class wi) (wi_instance wi) w
                            (upd_client w (\<lambda>C. C\<lparr>mon := selmon s0\<rparr>) s0));
          m = monitor s1 (mon (client s1 w));
          s2 = upd_client w (\<lambda>C. if c_x C + WIDTH C > mx m + mw m
                                  then C\<lparr>c_x := mx m + mw m - WIDTH C\<rparr> else C) s1;
          s3 = upd_client w (\<lambda>C. if c_y C + HEIGHT C > my m + mh m
                                  then C\<lparr>c_y := my m + mh m - HEIGHT C\<rparr> else C) s2;
          s4 = upd_client w (\<lambda>C. C\<lparr>c_x := max (c_x C) (mx m)\<rparr>) s3;
          s5 = upd_client w
                 (\<lambda>C. C\<lparr>c_y := max (c_y C)
                          (if bar_y m = my m \<and> c_x C + c_w C sdiv 2 \<ge> wx m
                              \<and> c_x C + c_w C sdiv 2 < wx m + ww m
                           then bh s else my m)\<rparr>) s4;
          s6 = upd_client w (\<lambda>C. C\<lparr>bw := borderpx\<rparr>) s5;
          s7 = updatewindowtype (wi_fullscreen wi) (wi_dialog wi) w s6;
          s8 = upd_client w (updatesizehints (wi_size wi)) s7;
          s9 = updatewmhints (wi_wmhints wi) w s8;
          s10 = (if \<not> isfloating (client s9 w)
                 then upd_client w (\<lambda>C. C\<lparr>oldstate := (wi_trans wi \<noteq> None \<or> isfixed C),
                                           isfloating := (wi_trans wi \<noteq> None \<or> isfixed C)\<rparr>) s9
                 else s9);
          s11 = attachstack w (attach w s10);
          s12 = upd_monitor (mon (client s11 w)) (\<lambda>m. m\<lparr>sel := Some w\<rparr>) s11;
          s13 = arrange (Some (mon (client s12 w))) s12
      in focus None s13)"

definition manage :: "window \<Rightarrow> XWindowInfo \<Rightarrow> wm \<Rightarrow> wm" where
  "manage = manage_with rules"

text \<open>
  \<^verbatim>\<open>void unmanage(Client* c, int destroyed)\<close>: \<^verbatim>\<open>free(c)\<close> takes the client out of the
  store. What \<^verbatim>\<open>destroyed\<close> decides is sent to the X server only.
\<close>

definition unmanage :: "window \<Rightarrow> wm \<Rightarrow> wm" where
  "unmanage c s =
     (let m = mon (client s c);
          s1 = detachstack c (detach c s);
          s2 = s1\<lparr>store := (store s1)(c := None)\<rparr>
      in arrange (Some m) (focus None s2))"

section \<open>Screens\<close>

text \<open>The fields of \<^verbatim>\<open>XineramaScreenInfo\<close> that \<^verbatim>\<open>updategeom\<close> reads.\<close>

record XineramaScreenInfo =
  x_org :: int
  y_org :: int
  xs_width :: int
  xs_height :: int

text \<open>\<^verbatim>\<open>static int isuniquegeom(XineramaScreenInfo* unique, size_t n, XineramaScreenInfo* info)\<close>\<close>

definition isuniquegeom :: "XineramaScreenInfo list \<Rightarrow> XineramaScreenInfo \<Rightarrow> bool" where
  "isuniquegeom unique info =
     (\<not> list_ex (\<lambda>u. x_org u = x_org info \<and> y_org u = y_org info
                     \<and> xs_width u = xs_width info \<and> xs_height u = xs_height info) unique)"

text \<open>The loop of \<^verbatim>\<open>updategeom\<close> that copies the unique geometries, in their order.\<close>

definition unique_screens :: "XineramaScreenInfo list \<Rightarrow> XineramaScreenInfo list" where
  "unique_screens info = fold (\<lambda>i u. if isuniquegeom u i then u @ [i] else u) info []"

text \<open>
  The test and the body of the loop of \<^verbatim>\<open>updategeom\<close> that gives the monitor at position
  \<open>i\<close> the geometry of screen \<open>u\<close>; \<open>n\<close> is the number of monitors before.
\<close>

definition screen_differs :: "nat \<Rightarrow> nat \<Rightarrow> XineramaScreenInfo \<Rightarrow> Monitor \<Rightarrow> bool" where
  "screen_differs n i u m =
     (i \<ge> n \<or> x_org u \<noteq> mx m \<or> y_org u \<noteq> my m \<or> xs_width u \<noteq> mw m \<or> xs_height u \<noteq> mh m)"

definition take_screen :: "int \<Rightarrow> nat \<Rightarrow> XineramaScreenInfo \<Rightarrow> Monitor \<Rightarrow> Monitor" where
  "take_screen barh i u m =
     updatebarpos barh
       (m\<lparr>num := int i, mx := x_org u, wx := x_org u, my := y_org u, wy := y_org u,
          mw := xs_width u, ww := xs_width u, mh := xs_height u, wh := xs_height u\<rparr>)"

text \<open>
  \<^verbatim>\<open>while ((c = m->clients))\<close> of \<^verbatim>\<open>updategeom\<close>: the clients of the monitor at position
  \<open>l\<close>, which is to be removed and is not the first one, move to the first monitor.
\<close>

fun move_clients :: "nat \<Rightarrow> window list \<Rightarrow> wm \<Rightarrow> wm" where
  "move_clients l [] s = s"
| "move_clients l (c # cs) s =
     (let s1 = upd_monitor l (\<lambda>m. m\<lparr>clients := cs\<rparr>) s;
          s2 = detachstack c s1;
          s3 = upd_client c (\<lambda>C. C\<lparr>mon := 0\<rparr>) s2
      in move_clients l cs (attachstack c (attach c s3)))"

text \<open>
  \<^verbatim>\<open>for (i = nn; i < n; i++)\<close> of \<^verbatim>\<open>updategeom\<close>, \<open>k\<close> rounds of it: each removes the last
  monitor (\<^verbatim>\<open>cleanupmon\<close>). The flag is \<^verbatim>\<open>dirty\<close>.
\<close>

fun remove_monitors :: "nat \<Rightarrow> bool \<times> wm \<Rightarrow> bool \<times> wm" where
  "remove_monitors 0 ds = ds"
| "remove_monitors (Suc k) (dirty, s) =
     (let l = length (mons s) - 1;
          cs = clients (monitor s l);
          s1 = move_clients l cs s;
          s2 = (if l = selmon s1 then s1\<lparr>selmon := 0\<rparr> else s1)
      in remove_monitors k (dirty \<or> cs \<noteq> [], s2\<lparr>mons := butlast (mons s2)\<rparr>))"

text \<open>
  The two blocks of \<^verbatim>\<open>updategeom\<close> before \<^verbatim>\<open>if (dirty)\<close>: with Xinerama, and the default
  monitor setup. \<open>xi\<close> is what \<^verbatim>\<open>XineramaQueryScreens\<close> answers, \<open>None\<close> when Xinerama is
  not active or not compiled in. The result is \<^verbatim>\<open>dirty\<close> and the new state. With Xinerama
  active and no screen at all the source is left without a monitor, or never leaves the
  loop that moves the clients of the first monitor to the first monitor: the result is
  \<open>None\<close>.
\<close>

definition update_monitors :: "XineramaScreenInfo list option \<Rightarrow> wm \<Rightarrow> (bool \<times> wm) option" where
  "update_monitors xi s =
     (case xi of
        Some info \<Rightarrow>
          let n = length (mons s); unique = unique_screens info; nn = length unique
          in if unique = [] then None
             else if n \<le> nn then
               let ms = mons s @ replicate (nn - n) createmon;
                   z = zip [0 ..< nn] (zip unique ms)
               in Some (list_ex (\<lambda>(i, u, m). screen_differs n i u m) z,
                        s\<lparr>mons := map (\<lambda>(i, u, m). if screen_differs n i u m
                                                    then take_screen (bh s) i u m else m) z\<rparr>)
             else Some (remove_monitors (n - nn) (False, s))
      | None \<Rightarrow>
          let s1 = (if mons s = [] then s\<lparr>mons := [createmon]\<rparr> else s)
          in if mw (monitor s1 0) \<noteq> sw s1 \<or> mh (monitor s1 0) \<noteq> sh s1
             then Some (True, upd_monitor 0
                          (\<lambda>m. updatebarpos (bh s1)
                                 (m\<lparr>mw := sw s1, ww := sw s1, mh := sh s1, wh := sh s1\<rparr>)) s1)
             else Some (False, s1))"

text \<open>
  \<^verbatim>\<open>int updategeom(void)\<close>; \<open>ptr\<close> is the answer of \<^verbatim>\<open>getrootptr\<close>. The result is the
  returned flag and the new state.
\<close>

definition updategeom ::
  "XineramaScreenInfo list option \<Rightarrow> (int \<times> int) option \<Rightarrow> wm \<Rightarrow> (bool \<times> wm) option" where
  "updategeom xi ptr s =
     (case update_monitors xi s of
        None \<Rightarrow> None
      | Some (dirty, s2) \<Rightarrow>
          if dirty then
            let s3 = s2\<lparr>selmon := 0\<rparr>
            in Some (True, s3\<lparr>selmon := wintomon s3 Root ptr\<rparr>)
          else Some (False, s2))"

section \<open>Start\<close>

text \<open>
  \<^verbatim>\<open>void setup(void)\<close>, from the display size, the height of the font and the answers to
  \<^verbatim>\<open>updategeom\<close>. Before it \<^verbatim>\<open>mons\<close> and \<^verbatim>\<open>selmon\<close> are \<^verbatim>\<open>NULL\<close> and \<^verbatim>\<open>running\<close> is 1. When
  \<^verbatim>\<open>updategeom\<close> finds nothing changed (a display of size zero), \<^verbatim>\<open>selmon\<close> still is \<^verbatim>\<open>NULL\<close>
  where \<^verbatim>\<open>updatestatus\<close> dereferences it: the result is \<open>None\<close>.
\<close>

definition dwm_setup ::
  "int \<Rightarrow> int \<Rightarrow> int \<Rightarrow> XineramaScreenInfo list option \<Rightarrow> (int \<times> int) option \<Rightarrow> wm option" where
  "dwm_setup dw dh fonth xi ptr =
     (case updategeom xi ptr
             \<lparr>sw = dw, sh = dh, bh = fonth + 2, mons = [], selmon = 0, store = Map.empty,
              running = True, motion_mon = None\<rparr> of
        None \<Rightarrow> None
      | Some (dirty, s) \<Rightarrow> if dirty then Some (focus None s) else None)"

text \<open>
  What \<^verbatim>\<open>scan\<close> learns about a child of the root window: whether \<^verbatim>\<open>XGetWindowAttributes\<close>
  succeeds, \<^verbatim>\<open>override_redirect\<close>, whether \<^verbatim>\<open>XGetTransientForHint\<close> succeeds, whether the
  window is viewable or its state iconic, and what \<^verbatim>\<open>manage\<close> will read.
\<close>

record scanned =
  sc_window :: window
  sc_attributes :: bool
  sc_override_redirect :: bool
  sc_transient :: bool
  sc_viewable_or_iconic :: bool
  sc_info :: XWindowInfo

text \<open>\<^verbatim>\<open>void scan(void)\<close>: the windows that are not transient first, then the transient ones.\<close>

definition scan :: "scanned list \<Rightarrow> wm \<Rightarrow> wm" where
  "scan wins s =
     (let first = filter (\<lambda>x. \<not> (\<not> sc_attributes x \<or> sc_override_redirect x \<or> sc_transient x)
                               \<and> sc_viewable_or_iconic x) wins;
          second = filter (\<lambda>x. sc_attributes x \<and> sc_transient x \<and> sc_viewable_or_iconic x) wins
      in fold (\<lambda>x. manage (sc_window x) (sc_info x)) (first @ second) s)"

section \<open>Keys and buttons\<close>

text \<open>
  \<^verbatim>\<open>union Arg\<close>, by the member that an initialiser sets; \<^verbatim>\<open>{0}\<close> is \<open>Arg_zero\<close>. A pointer
  \<^verbatim>\<open>.v\<close> is either \<^verbatim>\<open>&layouts[k]\<close> or a command line. Reading a member of \<^verbatim>\<open>{0}\<close> gives zero
  (a null pointer). The tables of config.def.h read no other member than the one they set;
  where the model has to answer nevertheless, \<open>arg_i\<close> and \<open>arg_ui\<close> convert between the
  two integer members and every other reading gives zero.
\<close>

datatype Arg = Arg_zero | Arg_i int | Arg_ui u32 | Arg_f rat | Arg_layout nat | Arg_cmd "string list"

fun arg_i :: "Arg \<Rightarrow> int" where
  "arg_i (Arg_i i) = i"
| "arg_i (Arg_ui u) = sint u"
| "arg_i _ = 0"

fun arg_ui :: "Arg \<Rightarrow> u32" where
  "arg_ui (Arg_ui u) = u"
| "arg_ui (Arg_i i) = word_of_int i"
| "arg_ui _ = 0"

fun arg_f :: "Arg \<Rightarrow> rat" where
  "arg_f (Arg_f f) = f"
| "arg_f _ = 0"

fun arg_v :: "Arg \<Rightarrow> Layout option" where
  "arg_v (Arg_layout k) = Some (layouts ! k)"
| "arg_v _ = None"

text \<open>\<^verbatim>\<open>buttons[i].arg.i == 0\<close>: a pointer into a table is not null.\<close>

fun arg_i_is_zero :: "Arg \<Rightarrow> bool" where
  "arg_i_is_zero Arg_zero = True"
| "arg_i_is_zero (Arg_i i) = (i = 0)"
| "arg_i_is_zero (Arg_ui u) = (u = 0)"
| "arg_i_is_zero (Arg_f f) = (f = 0)"
| "arg_i_is_zero _ = False"

text \<open>The functions that the tables \<^verbatim>\<open>keys\<close> and \<^verbatim>\<open>buttons\<close> name.\<close>

datatype func =
    Fn_spawn | Fn_togglebar | Fn_focusstack | Fn_incnmaster | Fn_setmfact | Fn_zoom | Fn_view
  | Fn_killclient | Fn_setlayout | Fn_togglefloating | Fn_tag | Fn_focusmon | Fn_tagmon
  | Fn_toggleview | Fn_toggletag | Fn_quit | Fn_movemouse | Fn_resizemouse

text \<open>Modifier masks, buttons and key symbols, from \<^verbatim>\<open>X11/X.h\<close> and \<^verbatim>\<open>X11/keysymdef.h\<close>.\<close>

definition ShiftMask :: u32 where
  "ShiftMask = 1"

definition LockMask :: u32 where
  "LockMask = 2"

definition ControlMask :: u32 where
  "ControlMask = 4"

definition Mod1Mask :: u32 where
  "Mod1Mask = 8"

definition Mod2Mask :: u32 where
  "Mod2Mask = 16"

definition Mod3Mask :: u32 where
  "Mod3Mask = 32"

definition Mod4Mask :: u32 where
  "Mod4Mask = 64"

definition Mod5Mask :: u32 where
  "Mod5Mask = 128"

definition Button1 :: nat where
  "Button1 = 1"

definition Button2 :: nat where
  "Button2 = 2"

definition Button3 :: nat where
  "Button3 = 3"

definition XK_Return :: nat where
  "XK_Return = 0xff0d"

definition XK_Tab :: nat where
  "XK_Tab = 0xff09"

definition XK_space :: nat where
  "XK_space = 0x20"

definition XK_comma :: nat where
  "XK_comma = 0x2c"

definition XK_period :: nat where
  "XK_period = 0x2e"

text \<open>\<^verbatim>\<open>XK_0 .. XK_9\<close> and \<^verbatim>\<open>XK_a .. XK_z\<close> are the ASCII codes of the characters.\<close>

definition XK :: "char \<Rightarrow> nat" where
  "XK ch = of_char ch"

text \<open>\<^verbatim>\<open>#define CLEANMASK(mask)\<close>, with the global \<^verbatim>\<open>numlockmask\<close> as first argument.\<close>

definition CLEANMASK :: "u32 \<Rightarrow> u32 \<Rightarrow> u32" where
  "CLEANMASK numlockmask msk =
     msk AND NOT (numlockmask OR LockMask)
       AND (ShiftMask OR ControlMask OR Mod1Mask OR Mod2Mask OR Mod3Mask OR Mod4Mask OR Mod5Mask)"

record Key =
  k_mod :: u32
  k_keysym :: nat
  k_func :: func
  k_arg :: Arg

definition MODKEY :: u32 where
  "MODKEY = Mod1Mask"

text \<open>\<^verbatim>\<open>#define TAGKEYS(KEY,TAG)\<close>\<close>

definition TAGKEYS :: "nat \<Rightarrow> nat \<Rightarrow> Key list" where
  "TAGKEYS KEY TAG =
     [\<lparr>k_mod = MODKEY, k_keysym = KEY, k_func = Fn_view, k_arg = Arg_ui (push_bit TAG 1)\<rparr>,
      \<lparr>k_mod = MODKEY OR ControlMask, k_keysym = KEY, k_func = Fn_toggleview,
        k_arg = Arg_ui (push_bit TAG 1)\<rparr>,
      \<lparr>k_mod = MODKEY OR ShiftMask, k_keysym = KEY, k_func = Fn_tag, k_arg = Arg_ui (push_bit TAG 1)\<rparr>,
      \<lparr>k_mod = MODKEY OR ControlMask OR ShiftMask, k_keysym = KEY, k_func = Fn_toggletag,
        k_arg = Arg_ui (push_bit TAG 1)\<rparr>]"

definition dmenucmd :: "string list" where
  "dmenucmd = [''dmenu_run'', ''-m'', ''0'', ''-fn'', ''monospace:size=10'', ''-nb'', ''#222222'',
               ''-nf'', ''#bbbbbb'', ''-sb'', ''#005577'', ''-sf'', ''#eeeeee'']"

definition termcmd :: "string list" where
  "termcmd = [''st'']"

definition key :: "u32 \<Rightarrow> nat \<Rightarrow> func \<Rightarrow> Arg \<Rightarrow> Key" where
  "key m k f a = \<lparr>k_mod = m, k_keysym = k, k_func = f, k_arg = a\<rparr>"

definition keys :: "Key list" where
  "keys =
     [key MODKEY (XK CHR ''p'') Fn_spawn (Arg_cmd dmenucmd),
      key (MODKEY OR ShiftMask) XK_Return Fn_spawn (Arg_cmd termcmd),
      key MODKEY (XK CHR ''b'') Fn_togglebar Arg_zero,
      key MODKEY (XK CHR ''j'') Fn_focusstack (Arg_i 1),
      key MODKEY (XK CHR ''k'') Fn_focusstack (Arg_i (- 1)),
      key MODKEY (XK CHR ''i'') Fn_incnmaster (Arg_i 1),
      key MODKEY (XK CHR ''d'') Fn_incnmaster (Arg_i (- 1)),
      key MODKEY (XK CHR ''h'') Fn_setmfact (Arg_f (- (5 / 100))),
      key MODKEY (XK CHR ''l'') Fn_setmfact (Arg_f (5 / 100)),
      key MODKEY XK_Return Fn_zoom Arg_zero,
      key MODKEY XK_Tab Fn_view Arg_zero,
      key (MODKEY OR ShiftMask) (XK CHR ''c'') Fn_killclient Arg_zero,
      key MODKEY (XK CHR ''t'') Fn_setlayout (Arg_layout 0),
      key MODKEY (XK CHR ''f'') Fn_setlayout (Arg_layout 1),
      key MODKEY (XK CHR ''m'') Fn_setlayout (Arg_layout 2),
      key MODKEY XK_space Fn_setlayout Arg_zero,
      key (MODKEY OR ShiftMask) XK_space Fn_togglefloating Arg_zero,
      key MODKEY (XK CHR ''0'') Fn_view (Arg_ui (NOT 0)),
      key (MODKEY OR ShiftMask) (XK CHR ''0'') Fn_tag (Arg_ui (NOT 0)),
      key MODKEY XK_comma Fn_focusmon (Arg_i (- 1)),
      key MODKEY XK_period Fn_focusmon (Arg_i 1),
      key (MODKEY OR ShiftMask) XK_comma Fn_tagmon (Arg_i (- 1)),
      key (MODKEY OR ShiftMask) XK_period Fn_tagmon (Arg_i 1)]
     @ concat (map (\<lambda>t. TAGKEYS (XK (''123456789'' ! t)) t) [0 ..< 9])
     @ [key (MODKEY OR ShiftMask) (XK CHR ''q'') Fn_quit Arg_zero]"

text \<open>The \<^verbatim>\<open>Clk\<close> enumeration and the table \<^verbatim>\<open>buttons\<close>.\<close>

datatype click = ClkTagBar | ClkLtSymbol | ClkStatusText | ClkWinTitle | ClkClientWin | ClkRootWin

record Button =
  b_click :: click
  b_mask :: u32
  b_button :: nat
  b_func :: func
  b_arg :: Arg

definition button :: "click \<Rightarrow> u32 \<Rightarrow> nat \<Rightarrow> func \<Rightarrow> Arg \<Rightarrow> Button" where
  "button c m b f a = \<lparr>b_click = c, b_mask = m, b_button = b, b_func = f, b_arg = a\<rparr>"

definition buttons :: "Button list" where
  "buttons =
     [button ClkLtSymbol 0 Button1 Fn_setlayout Arg_zero,
      button ClkLtSymbol 0 Button3 Fn_setlayout (Arg_layout 2),
      button ClkWinTitle 0 Button2 Fn_zoom Arg_zero,
      button ClkStatusText 0 Button2 Fn_spawn (Arg_cmd termcmd),
      button ClkClientWin MODKEY Button1 Fn_movemouse Arg_zero,
      button ClkClientWin MODKEY Button2 Fn_togglefloating Arg_zero,
      button ClkClientWin MODKEY Button3 Fn_resizemouse Arg_zero,
      button ClkTagBar 0 Button1 Fn_view Arg_zero,
      button ClkTagBar 0 Button3 Fn_toggleview Arg_zero,
      button ClkTagBar MODKEY Button1 Fn_tag Arg_zero,
      button ClkTagBar MODKEY Button3 Fn_toggletag Arg_zero]"

section \<open>Moving and resizing with the mouse\<close>

text \<open>\<^verbatim>\<open>void maprequest(XEvent* e)\<close>, with what \<^verbatim>\<open>XGetWindowAttributes\<close> answers.\<close>

record XMapRequestEvent =
  mr_window :: window
  mr_attributes :: bool
  mr_override_redirect :: bool
  mr_info :: XWindowInfo

definition maprequest :: "XMapRequestEvent \<Rightarrow> wm \<Rightarrow> wm" where
  "maprequest ev s =
     (if \<not> mr_attributes ev then s
      else if mr_override_redirect ev then s
      else if wintoclient s (mr_window ev) = None then manage (mr_window ev) (mr_info ev) s
      else s)"

text \<open>
  The events that \<^verbatim>\<open>XMaskEvent\<close> hands to \<^verbatim>\<open>movemouse\<close> and \<^verbatim>\<open>resizemouse\<close> before
  \<^verbatim>\<open>ButtonRelease\<close>; a motion event carries its time and position. \<open>P_ButtonPress\<close> is an
  event the \<^verbatim>\<open>switch\<close> has no case for.
\<close>

datatype pointer_event =
    P_ConfigureRequest XConfigureRequestEvent
  | P_Expose
  | P_MapRequest XMapRequestEvent
  | P_MotionNotify "64 word" int int
  | P_ButtonPress

text \<open>
  What the X server answers to a mouse function: whether \<^verbatim>\<open>XGrabPointer\<close> succeeds, the
  answer of \<^verbatim>\<open>getrootptr\<close>, and the events up to \<^verbatim>\<open>ButtonRelease\<close>.
\<close>

record mouse_input =
  grabbed :: bool
  rootptr :: "(int \<times> int) option"
  pointer_events :: "pointer_event list"

text \<open>The case \<^verbatim>\<open>MotionNotify\<close> of \<^verbatim>\<open>movemouse\<close>, after the test of the time.\<close>

definition movemouse_motion :: "window \<Rightarrow> int \<Rightarrow> int \<Rightarrow> int \<Rightarrow> int \<Rightarrow> int \<Rightarrow> int \<Rightarrow> wm \<Rightarrow> wm" where
  "movemouse_motion c x y ocx ocy ex ey s =
     (let m = monitor s (selmon s); C = client s c;
          nx0 = ocx + (ex - x);
          ny0 = ocy + (ey - y);
          nx = (if \<bar>wx m - nx0\<bar> < snap then wx m
                else if \<bar>(wx m + ww m) - (nx0 + WIDTH C)\<bar> < snap then wx m + ww m - WIDTH C
                else nx0);
          ny = (if \<bar>wy m - ny0\<bar> < snap then wy m
                else if \<bar>(wy m + wh m) - (ny0 + HEIGHT C)\<bar> < snap then wy m + wh m - HEIGHT C
                else ny0);
          s1 = (if \<not> isfloating C \<and> lt_arrange (sel_layout m) \<noteq> None
                   \<and> (\<bar>nx - c_x C\<bar> > snap \<or> \<bar>ny - c_y C\<bar> > snap)
                then togglefloating s else s);
          C1 = client s1 c
      in if lt_arrange (sel_layout (monitor s1 (selmon s1))) = None \<or> isfloating C1
         then resize c nx ny (c_w C1) (c_h C1) True s1 else s1)"

text \<open>The loop of \<^verbatim>\<open>movemouse\<close>; \<^verbatim>\<open>1000 / 60\<close> is 16.\<close>

fun movemouse_loop ::
  "window \<Rightarrow> int \<Rightarrow> int \<Rightarrow> int \<Rightarrow> int \<Rightarrow> pointer_event list \<Rightarrow> 64 word \<Rightarrow> wm \<Rightarrow> wm" where
  "movemouse_loop c x y ocx ocy [] lasttime s = s"
| "movemouse_loop c x y ocx ocy (P_ConfigureRequest ev # es) lasttime s =
     movemouse_loop c x y ocx ocy es lasttime (configurerequest ev s)"
| "movemouse_loop c x y ocx ocy (P_Expose # es) lasttime s =
     movemouse_loop c x y ocx ocy es lasttime s"
| "movemouse_loop c x y ocx ocy (P_MapRequest ev # es) lasttime s =
     movemouse_loop c x y ocx ocy es lasttime (maprequest ev s)"
| "movemouse_loop c x y ocx ocy (P_MotionNotify t ex ey # es) lasttime s =
     (if t - lasttime \<le> 16 then movemouse_loop c x y ocx ocy es lasttime s
      else movemouse_loop c x y ocx ocy es t (movemouse_motion c x y ocx ocy ex ey s))"
| "movemouse_loop c x y ocx ocy (P_ButtonPress # es) lasttime s =
     movemouse_loop c x y ocx ocy es lasttime s"

text \<open>
  What both mouse functions do after the loop: a client that lies mostly on another
  monitor is sent there.
\<close>

definition mouse_release :: "window \<Rightarrow> wm \<Rightarrow> wm" where
  "mouse_release c s =
     (let C = client s c; m = recttomon s (c_x C) (c_y C) (c_w C) (c_h C)
      in if m \<noteq> selmon s then focus None ((sendmon c m s)\<lparr>selmon := m\<rparr>) else s)"

text \<open>\<^verbatim>\<open>void movemouse(const Arg* arg)\<close>\<close>

definition movemouse :: "mouse_input \<Rightarrow> wm \<Rightarrow> wm" where
  "movemouse inp s =
     (case sel (monitor s (selmon s)) of
        None \<Rightarrow> s
      | Some c \<Rightarrow>
          if isfullscreen (client s c) then s
          else if \<not> grabbed inp then s
          else
            case rootptr inp of
              None \<Rightarrow> s
            | Some (x, y) \<Rightarrow>
                mouse_release c
                  (movemouse_loop c x y (c_x (client s c)) (c_y (client s c))
                     (pointer_events inp) 0 s))"

text \<open>The case \<^verbatim>\<open>MotionNotify\<close> of \<^verbatim>\<open>resizemouse\<close>, after the test of the time.\<close>

definition resizemouse_motion :: "window \<Rightarrow> int \<Rightarrow> int \<Rightarrow> int \<Rightarrow> int \<Rightarrow> wm \<Rightarrow> wm" where
  "resizemouse_motion c ocx ocy ex ey s =
     (let C = client s c; m = monitor s (selmon s); cm = monitor s (mon C);
          nw = max (ex - ocx - 2 * bw C + 1) 1;
          nh = max (ey - ocy - 2 * bw C + 1) 1;
          s1 = (if wx cm + nw \<ge> wx m \<and> wx cm + nw \<le> wx m + ww m
                   \<and> wy cm + nh \<ge> wy m \<and> wy cm + nh \<le> wy m + wh m
                   \<and> \<not> isfloating C \<and> lt_arrange (sel_layout m) \<noteq> None
                   \<and> (\<bar>nw - c_w C\<bar> > snap \<or> \<bar>nh - c_h C\<bar> > snap)
                then togglefloating s else s);
          C1 = client s1 c
      in if lt_arrange (sel_layout (monitor s1 (selmon s1))) = None \<or> isfloating C1
         then resize c (c_x C1) (c_y C1) nw nh True s1 else s1)"

fun resizemouse_loop ::
  "window \<Rightarrow> int \<Rightarrow> int \<Rightarrow> pointer_event list \<Rightarrow> 64 word \<Rightarrow> wm \<Rightarrow> wm" where
  "resizemouse_loop c ocx ocy [] lasttime s = s"
| "resizemouse_loop c ocx ocy (P_ConfigureRequest ev # es) lasttime s =
     resizemouse_loop c ocx ocy es lasttime (configurerequest ev s)"
| "resizemouse_loop c ocx ocy (P_Expose # es) lasttime s =
     resizemouse_loop c ocx ocy es lasttime s"
| "resizemouse_loop c ocx ocy (P_MapRequest ev # es) lasttime s =
     resizemouse_loop c ocx ocy es lasttime (maprequest ev s)"
| "resizemouse_loop c ocx ocy (P_MotionNotify t ex ey # es) lasttime s =
     (if t - lasttime \<le> 16 then resizemouse_loop c ocx ocy es lasttime s
      else resizemouse_loop c ocx ocy es t (resizemouse_motion c ocx ocy ex ey s))"
| "resizemouse_loop c ocx ocy (P_ButtonPress # es) lasttime s =
     resizemouse_loop c ocx ocy es lasttime s"

text \<open>\<^verbatim>\<open>void resizemouse(const Arg* arg)\<close>\<close>

definition resizemouse :: "mouse_input \<Rightarrow> wm \<Rightarrow> wm" where
  "resizemouse inp s =
     (case sel (monitor s (selmon s)) of
        None \<Rightarrow> s
      | Some c \<Rightarrow>
          if isfullscreen (client s c) then s
          else if \<not> grabbed inp then s
          else
            mouse_release c
              (resizemouse_loop c (c_x (client s c)) (c_y (client s c)) (pointer_events inp) 0 s))"

text \<open>
  The call \<^verbatim>\<open>func(&arg)\<close> of a table entry. \<^verbatim>\<open>spawn\<close> forks and \<^verbatim>\<open>killclient\<close> sends a
  message or a request; neither changes the state of this process.
\<close>

fun call :: "func \<Rightarrow> Arg \<Rightarrow> mouse_input \<Rightarrow> wm \<Rightarrow> wm" where
  "call Fn_spawn a inp s = s"
| "call Fn_togglebar a inp s = togglebar s"
| "call Fn_focusstack a inp s = focusstack (arg_i a) s"
| "call Fn_incnmaster a inp s = incnmaster (arg_i a) s"
| "call Fn_setmfact a inp s = setmfact (arg_f a) s"
| "call Fn_zoom a inp s = zoom s"
| "call Fn_view a inp s = view (arg_ui a) s"
| "call Fn_killclient a inp s = s"
| "call Fn_setlayout a inp s = setlayout (arg_v a) s"
| "call Fn_togglefloating a inp s = togglefloating s"
| "call Fn_tag a inp s = tag (arg_ui a) s"
| "call Fn_focusmon a inp s = focusmon (arg_i a) s"
| "call Fn_tagmon a inp s = tagmon (arg_i a) s"
| "call Fn_toggleview a inp s = toggleview (arg_ui a) s"
| "call Fn_toggletag a inp s = toggletag (arg_ui a) s"
| "call Fn_quit a inp s = quit s"
| "call Fn_movemouse a inp s = movemouse inp s"
| "call Fn_resizemouse a inp s = resizemouse inp s"

section \<open>Event handlers\<close>

text \<open>
  What \<^verbatim>\<open>buttonpress\<close> reads of the event, and what the font and the bar answer: \<^verbatim>\<open>TEXTW\<close> of
  a string, the global \<^verbatim>\<open>blw\<close> and \<^verbatim>\<open>TEXTW(stext)\<close>.
\<close>

record XButtonPressedEvent =
  bp_window :: xwindow
  bp_x :: int
  bp_button :: nat
  bp_state :: u32

record bar_metrics =
  TEXTW :: "string \<Rightarrow> u32"
  blw :: int
  stext_w :: u32

text \<open>
  \<^verbatim>\<open>do x += TEXTW(tags[i]); while (ev->x >= x && ++i < LENGTH(tags));\<close> over the tags from
  \<open>i\<close> on; \<open>x\<close> is unsigned, so the comparison is. The result is \<open>i\<close> and \<open>x\<close> after the loop.
\<close>

fun tag_clicked :: "(string \<Rightarrow> u32) \<Rightarrow> u32 \<Rightarrow> string list \<Rightarrow> nat \<Rightarrow> u32 \<Rightarrow> nat \<times> u32" where
  "tag_clicked tw evx [] i x = (i, x)"
| "tag_clicked tw evx (t # ts) i x =
     (if evx \<ge> x + tw t then tag_clicked tw evx ts (i + 1) (x + tw t) else (i, x + tw t))"

text \<open>The loop of \<^verbatim>\<open>buttonpress\<close> over the table \<^verbatim>\<open>buttons\<close>; \<open>a\<close> is the local \<^verbatim>\<open>arg\<close>.\<close>

definition button_calls ::
  "Button list \<Rightarrow> u32 \<Rightarrow> click \<Rightarrow> Arg \<Rightarrow> XButtonPressedEvent \<Rightarrow> mouse_input \<Rightarrow> wm \<Rightarrow> wm" where
  "button_calls bs numlockmask clk a ev inp s =
     fold (\<lambda>b s. if clk = b_click b \<and> b_button b = bp_button ev
                      \<and> CLEANMASK numlockmask (b_mask b) = CLEANMASK numlockmask (bp_state ev)
                   then call (b_func b)
                          (if clk = ClkTagBar \<and> arg_i_is_zero (b_arg b) then a else b_arg b) inp s
                   else s) bs s"

text \<open>\<^verbatim>\<open>void buttonpress(XEvent* e)\<close>\<close>

definition buttonpress ::
  "XButtonPressedEvent \<Rightarrow> u32 \<Rightarrow> bar_metrics \<Rightarrow> (int \<times> int) option \<Rightarrow> mouse_input \<Rightarrow> wm \<Rightarrow> wm" where
  "buttonpress ev numlockmask bar ptr inp s =
     (let m = wintomon s (bp_window ev) ptr;
          s1 = (if m \<noteq> selmon s then focus None (s\<lparr>selmon := m\<rparr>) else s);
          evx = (word_of_int (bp_x ev) :: u32)
      in if bp_window ev = Barwin (selmon s1) then
           let (i, x) = tag_clicked (TEXTW bar) evx cfg_tags 0 0
           in if i < length cfg_tags
              then button_calls buttons numlockmask ClkTagBar (Arg_ui (push_bit i 1)) ev inp s1
              else button_calls buttons numlockmask
                     (if evx < x + word_of_int (blw bar) then ClkLtSymbol
                      else if evx > word_of_int (ww (monitor s1 (selmon s1))) - stext_w bar
                      then ClkStatusText
                      else ClkWinTitle) Arg_zero ev inp s1
         else
           case (case bp_window ev of Win w \<Rightarrow> wintoclient s1 w | _ \<Rightarrow> None) of
             Some c \<Rightarrow> button_calls buttons numlockmask ClkClientWin Arg_zero ev inp (focus (Some c) s1)
           | None \<Rightarrow> button_calls buttons numlockmask ClkRootWin Arg_zero ev inp s1)"

text \<open>The atoms that \<^verbatim>\<open>clientmessage\<close> and \<^verbatim>\<open>propertynotify\<close> compare with.\<close>

datatype Atom =
    XA_WM_NAME | XA_WM_TRANSIENT_FOR | XA_WM_NORMAL_HINTS | XA_WM_HINTS
  | NetWMName | NetWMWindowType | NetWMState | NetActiveWindow | NetWMFullscreen | Other_atom

text \<open>
  \<^verbatim>\<open>void clientmessage(XEvent* e)\<close>, with \<^verbatim>\<open>cme->window\<close>, \<^verbatim>\<open>cme->message_type\<close> and
  \<^verbatim>\<open>cme->data.l[0 .. 2]\<close>.
\<close>

definition clientmessage :: "xwindow \<Rightarrow> Atom \<Rightarrow> int \<Rightarrow> Atom \<Rightarrow> Atom \<Rightarrow> wm \<Rightarrow> wm" where
  "clientmessage w message_type l0 l1 l2 s =
     (case (case w of Win x \<Rightarrow> wintoclient s x | _ \<Rightarrow> None) of
        None \<Rightarrow> s
      | Some c \<Rightarrow>
          if message_type = NetWMState then
            (if l1 = NetWMFullscreen \<or> l2 = NetWMFullscreen
             then setfullscreen c (l0 = 1 \<or> (l0 = 2 \<and> \<not> isfullscreen (client s c))) s
             else s)
          else if message_type = NetActiveWindow then
            (if Some c \<noteq> sel (monitor s (selmon s)) \<and> \<not> isurgent (client s c)
             then seturgent c True s else s)
          else s)"

text \<open>
  The loop of \<^verbatim>\<open>configurenotify\<close> that gives every fullscreen client the geometry of its
  monitor.
\<close>

definition refit_fullscreen :: "wm \<Rightarrow> wm" where
  "refit_fullscreen s =
     fold (\<lambda>i s. fold (\<lambda>c s. if isfullscreen (client s c)
                               then let m = monitor s i in resizeclient c (mx m) (my m) (mw m) (mh m) s
                               else s) (clients (monitor s i)) s)
       [0 ..< length (mons s)] s"

text \<open>
  \<^verbatim>\<open>void configurenotify(XEvent* e)\<close>, with \<^verbatim>\<open>ev->window\<close>, \<^verbatim>\<open>ev->width\<close>, \<^verbatim>\<open>ev->height\<close> and the
  answers to \<^verbatim>\<open>updategeom\<close>.
\<close>

definition configurenotify ::
  "xwindow \<Rightarrow> int \<Rightarrow> int \<Rightarrow> XineramaScreenInfo list option \<Rightarrow> (int \<times> int) option \<Rightarrow> wm \<Rightarrow> wm option" where
  "configurenotify w width height xi ptr s =
     (if w = Root then
        let dirty = (sw s \<noteq> width \<or> sh s \<noteq> height)
        in case updategeom xi ptr (s\<lparr>sw := width, sh := height\<rparr>) of
             None \<Rightarrow> None
           | Some (changed, s1) \<Rightarrow>
               if changed \<or> dirty then Some (arrange None (focus None (refit_fullscreen s1)))
               else Some s1
      else Some s)"

text \<open>\<^verbatim>\<open>void destroynotify(XEvent* e)\<close>\<close>

definition destroynotify :: "xwindow \<Rightarrow> wm \<Rightarrow> wm" where
  "destroynotify w s =
     (case (case w of Win x \<Rightarrow> wintoclient s x | _ \<Rightarrow> None) of
        None \<Rightarrow> s
      | Some c \<Rightarrow> unmanage c s)"

text \<open>
  \<^verbatim>\<open>void enternotify(XEvent* e)\<close>; \<open>normal\<close> is \<^verbatim>\<open>ev->mode == NotifyNormal\<close> and \<open>inferior\<close> is
  \<^verbatim>\<open>ev->detail == NotifyInferior\<close>.
\<close>

definition enternotify :: "xwindow \<Rightarrow> bool \<Rightarrow> bool \<Rightarrow> (int \<times> int) option \<Rightarrow> wm \<Rightarrow> wm" where
  "enternotify w normal inferior ptr s =
     (if (\<not> normal \<or> inferior) \<and> w \<noteq> Root then s
      else
        let c = (case w of Win x \<Rightarrow> wintoclient s x | _ \<Rightarrow> None);
            m = (case c of Some d \<Rightarrow> mon (client s d) | None \<Rightarrow> wintomon s w ptr)
        in if m \<noteq> selmon s then focus c (s\<lparr>selmon := m\<rparr>)
           else if c = None \<or> c = sel (monitor s (selmon s)) then s
           else focus c s)"

text \<open>
  \<^verbatim>\<open>void keypress(XEvent* e)\<close>, over a table of keys; \<open>keysym\<close> is what \<^verbatim>\<open>XKeycodeToKeysym\<close>
  answers and \<open>state\<close> is \<^verbatim>\<open>ev->state\<close>.
\<close>

definition keypress :: "Key list \<Rightarrow> u32 \<Rightarrow> nat \<Rightarrow> u32 \<Rightarrow> mouse_input \<Rightarrow> wm \<Rightarrow> wm" where
  "keypress ks numlockmask keysym state inp s =
     fold (\<lambda>k s. if keysym = k_keysym k
                      \<and> CLEANMASK numlockmask (k_mod k) = CLEANMASK numlockmask state
                   then call (k_func k) (k_arg k) inp s else s) ks s"

text \<open>
  \<^verbatim>\<open>void motionnotify(XEvent* e)\<close>; the static variable \<^verbatim>\<open>mon\<close> is the field \<open>motion_mon\<close> of
  the state.
\<close>

definition motionnotify :: "xwindow \<Rightarrow> int \<Rightarrow> int \<Rightarrow> wm \<Rightarrow> wm" where
  "motionnotify w x_root y_root s =
     (if w \<noteq> Root then s
      else
        let m = recttomon s x_root y_root 1 1;
            s1 = (if Some m \<noteq> motion_mon s \<and> motion_mon s \<noteq> None
                  then focus None (s\<lparr>selmon := m\<rparr>) else s)
        in s1\<lparr>motion_mon := Some m\<rparr>)"

text \<open>
  \<^verbatim>\<open>void propertynotify(XEvent* e)\<close>; \<open>deleted\<close> is \<^verbatim>\<open>ev->state == PropertyDelete\<close>, and \<open>wi\<close>
  holds what the properties of the window now say. The title of a client is not part of
  the state.
\<close>

definition propertynotify :: "xwindow \<Rightarrow> Atom \<Rightarrow> bool \<Rightarrow> XWindowInfo \<Rightarrow> wm \<Rightarrow> wm" where
  "propertynotify w atom deleted wi s =
     (if w = Root \<and> atom = XA_WM_NAME then s
      else if deleted then s
      else
        case (case w of Win x \<Rightarrow> wintoclient s x | _ \<Rightarrow> None) of
          None \<Rightarrow> s
        | Some c \<Rightarrow>
            let s1 =
              (if atom = XA_WM_TRANSIENT_FOR then
                 (if \<not> isfloating (client s c) \<and> wi_trans wi \<noteq> None then
                    let fl = (wintoclient s (the (wi_trans wi)) \<noteq> None);
                        s0 = upd_client c (\<lambda>C. C\<lparr>isfloating := fl\<rparr>) s
                    in if fl then arrange (Some (mon (client s0 c))) s0 else s0
                  else s)
               else if atom = XA_WM_NORMAL_HINTS then upd_client c (updatesizehints (wi_size wi)) s
               else if atom = XA_WM_HINTS then updatewmhints (wi_wmhints wi) c s
               else s)
            in if atom = NetWMWindowType
               then updatewindowtype (wi_fullscreen wi) (wi_dialog wi) c s1 else s1)"

text \<open>\<^verbatim>\<open>void unmapnotify(XEvent* e)\<close>\<close>

definition unmapnotify :: "xwindow \<Rightarrow> bool \<Rightarrow> wm \<Rightarrow> wm" where
  "unmapnotify w send_event s =
     (case (case w of Win x \<Rightarrow> wintoclient s x | _ \<Rightarrow> None) of
        None \<Rightarrow> s
      | Some c \<Rightarrow> if send_event then s else unmanage c s)"

section \<open>The event loop\<close>

text \<open>
  The events that have a handler in the table \<^verbatim>\<open>handler\<close>, each with what its handler reads
  of the event and of the X server. \<^verbatim>\<open>expose\<close>, \<^verbatim>\<open>focusin\<close> and \<^verbatim>\<open>mappingnotify\<close> only draw
  or send requests.
\<close>

datatype event =
    ButtonPress XButtonPressedEvent u32 bar_metrics "(int \<times> int) option" mouse_input
  | ClientMessage xwindow Atom int Atom Atom
  | ConfigureRequest XConfigureRequestEvent
  | ConfigureNotify xwindow int int "XineramaScreenInfo list option" "(int \<times> int) option"
  | DestroyNotify xwindow
  | EnterNotify xwindow bool bool "(int \<times> int) option"
  | Expose
  | FocusIn
  | KeyPress u32 nat u32 mouse_input
  | MappingNotify
  | MapRequest XMapRequestEvent
  | MotionNotify xwindow int int
  | PropertyNotify xwindow Atom bool XWindowInfo
  | UnmapNotify xwindow bool

text \<open>\<^verbatim>\<open>handler[ev.type](&ev)\<close>; \<open>None\<close> where \<^verbatim>\<open>updategeom\<close> has no result.\<close>

fun handler :: "event \<Rightarrow> wm \<Rightarrow> wm option" where
  "handler (ButtonPress ev numlockmask bar ptr inp) s = Some (buttonpress ev numlockmask bar ptr inp s)"
| "handler (ClientMessage w message_type l0 l1 l2) s = Some (clientmessage w message_type l0 l1 l2 s)"
| "handler (ConfigureRequest ev) s = Some (configurerequest ev s)"
| "handler (ConfigureNotify w width height xi ptr) s = configurenotify w width height xi ptr s"
| "handler (DestroyNotify w) s = Some (destroynotify w s)"
| "handler (EnterNotify w normal inferior ptr) s = Some (enternotify w normal inferior ptr s)"
| "handler Expose s = Some s"
| "handler FocusIn s = Some s"
| "handler (KeyPress numlockmask keysym state inp) s = Some (keypress keys numlockmask keysym state inp s)"
| "handler MappingNotify s = Some s"
| "handler (MapRequest ev) s = Some (maprequest ev s)"
| "handler (MotionNotify w x_root y_root) s = Some (motionnotify w x_root y_root s)"
| "handler (PropertyNotify w atom deleted wi) s = Some (propertynotify w atom deleted wi s)"
| "handler (UnmapNotify w send_event) s = Some (unmapnotify w send_event s)"

text \<open>
  \<^verbatim>\<open>void run(void)\<close> on the events that \<^verbatim>\<open>XNextEvent\<close> delivers: the loop ends when
  \<^verbatim>\<open>running\<close> is 0, and the events left are not read.
\<close>

fun run :: "event list \<Rightarrow> wm \<Rightarrow> wm option" where
  "run [] s = Some s"
| "run (e # es) s =
     (if running s then (case handler e s of None \<Rightarrow> None | Some s1 \<Rightarrow> run es s1) else Some s)"

text \<open>
  What the X server answers while dwm starts: the size of the display, the height of the
  font, the Xinerama screens, the position of the pointer and the children of the root
  window, which \<^verbatim>\<open>XQueryTree\<close> lists once each.
\<close>

record boot =
  display_width :: int
  display_height :: int
  font_height :: int
  xinerama :: "XineramaScreenInfo list option"
  pointer :: "(int \<times> int) option"
  children :: "scanned list"

text \<open>
  \<^verbatim>\<open>setup(); scan(); run();\<close> of \<^verbatim>\<open>main\<close>: the state in which the event loop stands after the
  given events.
\<close>

definition dwm :: "boot \<Rightarrow> event list \<Rightarrow> wm option" where
  "dwm b es =
     (case dwm_setup (display_width b) (display_height b) (font_height b) (xinerama b) (pointer b) of
        None \<Rightarrow> None
      | Some s \<Rightarrow> if distinct (map sc_window (children b)) then run es (scan (children b) s) else None)"

section \<open>Program entry\<close>

text \<open>
  How \<^verbatim>\<open>main\<close> ends before the event loop: the process exits with a status after writing
  to standard output and to standard error, or \<^verbatim>\<open>main\<close> goes on to open the display.
\<close>

datatype outcome = Exit int string string | Starts

text \<open>\<^verbatim>\<open>EXIT_FAILURE\<close> of \<^verbatim>\<open>stdlib.h\<close>.\<close>

definition EXIT_FAILURE :: int where
  "EXIT_FAILURE = 1"

text \<open>
  Modelled from the spec: \<^verbatim>\<open>void die(const char* fmt, ...)\<close> is declared in \<^verbatim>\<open>util.h\<close> and
  defined in \<^verbatim>\<open>util.c\<close>, neither of which is among the sources; \<^verbatim>\<open>main\<close> ends through it
  both when it prints the version and when it prints the usage message. The spec says
  what the program does on each occasion: ``\<^verbatim>\<open>-v\<close> prints version and exits 0'', ``any
  other arguments print usage to stderr and exit nonzero'', and on a startup failure
  ``report to stderr and exit'', ``nonzero via \<^verbatim>\<open>die\<close>''. So \<^verbatim>\<open>die\<close> with the version
  message, which alone starts with \<^verbatim>\<open>dwm-\<close>, prints it and exits with status 0, and with
  any other message writes it to standard error and exits with \<^verbatim>\<open>EXIT_FAILURE\<close>.
\<close>

definition die :: "string \<Rightarrow> outcome" where
  "die msg = (if take 4 msg = ''dwm-'' then Exit 0 msg [] else Exit EXIT_FAILURE [] msg)"

text \<open>
  The argument check of \<^verbatim>\<open>int main(int argc, char* argv[])\<close>; \<open>version\<close> is the macro
  \<^verbatim>\<open>VERSION\<close> that the build defines, \<open>argv\<close> holds \<^verbatim>\<open>argc\<close> strings.
\<close>

definition main :: "string \<Rightarrow> string list \<Rightarrow> outcome" where
  "main version argv =
     (if length argv = 2 \<and> argv ! 1 = ''-v'' then die (''dwm-'' @ version)
      else if length argv \<noteq> 1 then die ''usage: dwm [-v]''
      else Starts)"

section \<open>Example states\<close>

text \<open>
  A monitor of 1920 by 1080 pixels with a bar of 20 pixels at the top, one client without
  size hints, and the state that holds a given client as window 1 on that monitor.
\<close>

definition ex_monitor :: Monitor where
  "ex_monitor = \<lparr>ltsymbol = ''[]='', mfact = 55 / 100, nmaster = 1, num = 0, bar_y = 0,
     mx = 0, my = 0, mw = 1920, mh = 1080, wx = 0, wy = 20, ww = 1920, wh = 1060,
     seltags = 0, sellt = 0, tagset = [1, 1], showbar = True, topbar = True,
     clients = [], sel = None, stack = [], lt = [layouts ! 0, layouts ! 1]\<rparr>"

definition ex_client :: Client where
  "ex_client = \<lparr>mina = 0, maxa = 0, c_x = 100, c_y = 100, c_w = 640, c_h = 480,
     oldx = 100, oldy = 100, oldw = 640, oldh = 480,
     basew = 0, baseh = 0, incw = 0, inch = 0, maxw = 0, maxh = 0, minw = 0, minh = 0,
     bw = 1, oldbw = 0, tags = 1, isfixed = False, isfloating = False, isurgent = False,
     neverfocus = False, oldstate = False, isfullscreen = False, mon = 0\<rparr>"

definition ex_with :: "Client \<Rightarrow> wm" where
  "ex_with C = \<lparr>sw = 1920, sh = 1080, bh = 20,
     mons = [ex_monitor\<lparr>clients := [1], sel := Some 1, stack := [1]\<rparr>],
     selmon = 0, store = [1 \<mapsto> C], running = True, motion_mon = None\<rparr>"

text \<open>A ConfigureRequest for window 1 that asks for nothing.\<close>

definition ex_cr :: XConfigureRequestEvent where
  "ex_cr = \<lparr>cr_window = 1, cr_value_mask = 0, cr_x = 0, cr_y = 0, cr_width = 0,
     cr_height = 0, cr_border_width = 0\<rparr>"

text \<open>
  A monitor whose window area is 1600 by 1000 at the origin (no bar shown), in the tile
  layout with \<^verbatim>\<open>mfact = 0.55\<close> and \<^verbatim>\<open>nmaster = 1\<close>, holding the windows 1 to 4, each the
  example client.
\<close>

definition ex_tile4 :: wm where
  "ex_tile4 = \<lparr>sw = 1600, sh = 1000, bh = 20,
     mons = [ex_monitor\<lparr>mw := 1600, mh := 1000, wy := 0, ww := 1600, wh := 1000, bar_y := - 20,
                        showbar := False, clients := [1, 2, 3, 4], sel := Some 1,
                        stack := [1, 2, 3, 4]\<rparr>],
     selmon = 0, store = [1 \<mapsto> ex_client, 2 \<mapsto> ex_client, 3 \<mapsto> ex_client, 4 \<mapsto> ex_client],
     running = True, motion_mon = None\<rparr>"

section \<open>Auxiliary notions of the proofs\<close>

text \<open>Rounding to a multiple of the increment, and the hint step in one dimension.\<close>

definition inc_floor :: "int \<Rightarrow> int \<Rightarrow> int" where
  "inc_floor i v = (if i \<noteq> 0 then v - v smod i else v)"

definition hint_dim :: "int \<Rightarrow> int \<Rightarrow> int \<Rightarrow> int \<Rightarrow> int \<Rightarrow> int" where
  "hint_dim b i lo hi v =
     (let a = max (inc_floor i (v - b) + b) lo in if hi \<noteq> 0 then min a hi else a)"

text \<open>
  A client without size hints, as \<^verbatim>\<open>updatesizehints\<close> leaves it when the window gives none;
  a visible tiled client of monitor \<open>mi\<close> with border width \<open>b\<close> and no size hints; the
  geometry of a client.
\<close>

definition no_hints :: "Client \<Rightarrow> bool" where
  "no_hints C = (basew C = 0 \<and> baseh C = 0 \<and> incw C = 0 \<and> inch C = 0 \<and> maxw C = 0 \<and>
     maxh C = 0 \<and> minw C = 0 \<and> minh C = 0 \<and> mina C = 0 \<and> maxa C = 0)"

definition plain_tiled :: "wm \<Rightarrow> nat \<Rightarrow> int \<Rightarrow> window \<Rightarrow> bool" where
  "plain_tiled s mi b c =
     (case store s c of
        None \<Rightarrow> False
      | Some C \<Rightarrow> mon C = mi \<and> \<not> isfloating C \<and> ISVISIBLE s c \<and> bw C = b \<and> no_hints C)"

definition geometry :: "Client \<Rightarrow> int \<times> int \<times> int \<times> int" where
  "geometry C = (c_x C, c_y C, c_w C, c_h C)"

text \<open>
  Two states that differ at most in the geometry \<open>c_x, c_y, c_w, c_h\<close> of clients, the
  saved geometry \<open>oldx, oldy, oldw, oldh\<close> and the layout symbols.
\<close>

definition same_client :: "Client \<Rightarrow> Client \<Rightarrow> bool" where
  "same_client C C' =
     (C'\<lparr>c_x := c_x C, c_y := c_y C, c_w := c_w C, c_h := c_h C,
         oldx := oldx C, oldy := oldy C, oldw := oldw C, oldh := oldh C\<rparr> = C)"

definition same_monitor :: "Monitor \<Rightarrow> Monitor \<Rightarrow> bool" where
  "same_monitor m m' = (m'\<lparr>ltsymbol := ltsymbol m\<rparr> = m)"

definition geom_only :: "wm \<Rightarrow> wm \<Rightarrow> bool" where
  "geom_only s s' =
     (sw s' = sw s \<and> sh s' = sh s \<and> bh s' = bh s \<and> selmon s' = selmon s \<and>
      running s' = running s \<and> motion_mon s' = motion_mon s \<and>
      list_all2 same_monitor (mons s) (mons s') \<and>
      (\<forall>c. rel_option same_client (store s c) (store s' c)))"

section \<open>Proofs\<close>

subsection \<open>Evaluation of the definitions on concrete states\<close>

lemmas ex_defs = ex_with_def ex_client_def ex_monitor_def client_def monitor_def layouts_def

lemmas ash_defs = applysizehints_def keep_inside_def icccm_hints_def aspect_limits_def
  flt_less_quot_def c_trunc_def resizehints_def WIDTH_def HEIGHT_def sel_layout_def Let_def
  signed_modulo_int_def

subsection \<open>Stores and monitors\<close>

lemma client_upd_client:
  "store s c = Some C \<Longrightarrow> client (upd_client c f s) c = f C"
  by (simp add: upd_client_def client_def)

lemma store_upd_client:
  "store (upd_client c f s) d = (if d = c then map_option f (store s c) else store s d)"
  by (simp add: upd_client_def split: option.splits)

lemma monitor_upd_client: "monitor (upd_client c f s) i = monitor s i"
  by (simp add: upd_client_def monitor_def split: option.splits)

lemma nth_beyond: "length xs = length ys \<Longrightarrow> length xs \<le> i \<Longrightarrow> xs ! i = ys ! i"
proof (induction xs arbitrary: ys i)
  case Nil then show ?case by simp
next
  case (Cons x xs)
  then obtain y ys' where ys: "ys = y # ys'" by (cases ys) auto
  from Cons.prems obtain j where i: "i = Suc j" by (cases i) auto
  with Cons ys show ?case by simp
qed

subsection \<open>Rounding to increments\<close>

lemma inc_floor_alt:
  "inc_floor i v =
     (if i = 0 then v else if 0 \<le> v then \<bar>i\<bar> * (v div \<bar>i\<bar>) else - (\<bar>i\<bar> * ((- v) div \<bar>i\<bar>)))"
proof -
  have "v + - v mod \<bar>i\<bar> = - (\<bar>i\<bar> * (- v div \<bar>i\<bar>))"
    using minus_mod_eq_mult_div[of "-v" "\<bar>i\<bar>"] by simp
  then show ?thesis
    by (auto simp: inc_floor_def signed_modulo_int_def sgn_if minus_mod_eq_mult_div)
qed

subsection \<open>applysizehints without aspect hints\<close>

lemma aspect_none: "\<not> (0 < mina C \<and> 0 < maxa C) \<Longrightarrow> aspect_limits C g = g"
  by (cases g; cases "0 < mina C"; simp add: aspect_limits_def)

lemma icccm_no_aspect:
  "\<not> (0 < mina C \<and> 0 < maxa C) \<Longrightarrow>
   icccm_hints C (w, h) =
     (hint_dim (basew C) (incw C) (minw C) (maxw C) w,
      hint_dim (baseh C) (inch C) (minh C) (maxh C) h)"
  by (cases "basew C = minw C \<and> baseh C = minh C")
     (simp_all add: icccm_hints_def aspect_none hint_dim_def inc_floor_def Let_def
        del: max.bounded_iff min.bounded_iff)

lemma ash_no_aspect:
  assumes "\<not> (0 < mina (client s c) \<and> 0 < maxa (client s c))"
  shows "applysizehints s c x y w h i =
     (let C = client s c; m = monitor s (mon C);
          p = keep_inside s C m i x y (max 1 w) (max 1 h);
          w' = hint_dim (basew C) (incw C) (minw C) (maxw C) (max (max 1 (bh s)) w);
          h' = hint_dim (baseh C) (inch C) (minh C) (maxh C) (max (max 1 (bh s)) h)
      in (fst p \<noteq> c_x C \<or> snd p \<noteq> c_y C \<or> w' \<noteq> c_w C \<or> h' \<noteq> c_h C, fst p, snd p, w', h'))"
proof -
  have a: "(if max 1 w < bh s then bh s else max 1 w) = max (max 1 (bh s)) w" for w
    by auto
  show ?thesis
    by (simp add: applysizehints_def Let_def split_def resizehints_def icccm_no_aspect[OF assms] a)
qed

subsection \<open>Claim C5: applysizehints applied twice\<close>

text \<open>
  Claim C5 says that \<^verbatim>\<open>applysizehints\<close> is idempotent for every client and every proposed
  geometry. The comment of the function says that it shrinks the window ``to the largest
  size that fulfills the client's size hints'', the width a base width plus a multiple of
  the increment within the aspect limits, and that a window wholly outside the screen is
  put inside. At the inputs below the function does neither, and a second application
  changes what the first returned. Each pair of lines applies it to a proposal and then
  to its own result, for window 1 of the example state (screen 1920 by 1080, bar height
  20, client at 100, 100 with border 1):
  \<^item> increment 10 and maximum width 25: width 37 becomes 25, which is no multiple of 10,
    and 25 becomes 20;
  \<^item> base width 100, increment 10, minimum width 45: width 30 becomes 45, which is not
    100 plus a multiple of 10, and 45 becomes 50;
  \<^item> aspect limits 1 and 1 with height increment 20: 100 by 50 becomes 50 by 40, of
    aspect 5 to 4, and that becomes 40 by 40;
  \<^item> increment 7 at x = -801: width 800 becomes 798 with x kept, so that the window with
    its border ends at -1, left of the screen, and a second application moves x to 0.
\<close>

theorem applysizehints_not_idempotent:
  "applysizehints (ex_with (ex_client\<lparr>incw := 10, maxw := 25\<rparr>)) 1 100 100 37 50 True
     = (True, 100, 100, 25, 50) \<and>
   applysizehints (ex_with (ex_client\<lparr>incw := 10, maxw := 25\<rparr>)) 1 100 100 25 50 True
     = (True, 100, 100, 20, 50) \<and>
   applysizehints (ex_with (ex_client\<lparr>basew := 100, incw := 10, minw := 45\<rparr>)) 1 100 100 30 50 True
     = (True, 100, 100, 45, 50) \<and>
   applysizehints (ex_with (ex_client\<lparr>basew := 100, incw := 10, minw := 45\<rparr>)) 1 100 100 45 50 True
     = (True, 100, 100, 50, 50) \<and>
   applysizehints (ex_with (ex_client\<lparr>mina := 1, maxa := 1, inch := 20\<rparr>)) 1 100 100 100 50 True
     = (True, 100, 100, 50, 40) \<and>
   applysizehints (ex_with (ex_client\<lparr>mina := 1, maxa := 1, inch := 20\<rparr>)) 1 100 100 50 40 True
     = (True, 100, 100, 40, 40) \<and>
   applysizehints (ex_with (ex_client\<lparr>incw := 7\<rparr>)) 1 (- 801) 100 800 50 True
     = (True, - 801, 100, 798, 50) \<and>
   applysizehints (ex_with (ex_client\<lparr>incw := 7\<rparr>)) 1 (- 801) 100 798 50 True
     = (True, 0, 100, 798, 50)"
  by code_simp

text \<open>
  So at each of the four inputs \<^verbatim>\<open>applysizehints\<close>, applied to the geometry it has just
  returned, does not return it again.
\<close>

theorem applysizehints_second_application:
  "applysizehints (ex_with (ex_client\<lparr>incw := 10, maxw := 25\<rparr>)) 1 100 100 25 50 True
     \<noteq> applysizehints (ex_with (ex_client\<lparr>incw := 10, maxw := 25\<rparr>)) 1 100 100 37 50 True \<and>
   applysizehints (ex_with (ex_client\<lparr>basew := 100, incw := 10, minw := 45\<rparr>)) 1 100 100 45 50 True
     \<noteq> applysizehints (ex_with (ex_client\<lparr>basew := 100, incw := 10, minw := 45\<rparr>)) 1 100 100 30 50 True \<and>
   applysizehints (ex_with (ex_client\<lparr>mina := 1, maxa := 1, inch := 20\<rparr>)) 1 100 100 50 40 True
     \<noteq> applysizehints (ex_with (ex_client\<lparr>mina := 1, maxa := 1, inch := 20\<rparr>)) 1 100 100 100 50 True \<and>
   applysizehints (ex_with (ex_client\<lparr>incw := 7\<rparr>)) 1 (- 801) 100 798 50 True
     \<noteq> applysizehints (ex_with (ex_client\<lparr>incw := 7\<rparr>)) 1 (- 801) 100 800 50 True"
  using applysizehints_not_idempotent by simp

subsection \<open>Claim C6: a mouse resize under increment hints\<close>

text \<open>
  Claim C6. A client has the size hints \<^verbatim>\<open>incw = 80, inch = 16\<close>, base size 0, minimum
  size 80 by 16, no maximum size and no aspect hints. The resize that \<^verbatim>\<open>resizemouse\<close>
  issues, \<^verbatim>\<open>resize(c, c->x, c->y, 837, 409, 1)\<close>, leaves the client with width 800 and
  height 400, at whatever position it is proposed. The bar height is the least size
  \<^verbatim>\<open>applysizehints\<close> hands out, so the scenario needs a bar of at most 415 pixels.
\<close>

theorem resize_increment_scenario:
  assumes c: "store s c = Some C"
    and hints: "incw C = 80" "inch C = 16" "basew C = 0" "baseh C = 0" "minw C = 80" "minh C = 16"
      "maxw C = 0" "maxh C = 0" "mina C = 0" "maxa C = 0"
    and bar: "bh s \<le> 415"
  shows "c_w (client (resize c x y 837 409 True s) c) = 800 \<and>
         c_h (client (resize c x y 837 409 True s) c) = 400"
proof -
  have C: "client s c = C" using c by (simp add: client_def)
  have na: "\<not> (0 < mina (client s c) \<and> 0 < maxa (client s c))" by (simp add: C hints)
  have w: "hint_dim 0 80 80 0 (max (max 1 (bh s)) 837) = 800"
  proof -
    have "max (max 1 (bh s)) 837 = 837" using bar by simp
    then show ?thesis by (simp add: hint_dim_def inc_floor_alt Let_def)
  qed
  have h: "hint_dim 0 16 16 0 (max (max 1 (bh s)) 409) = 400"
  proof -
    let ?v = "max (max 1 (bh s)) 409"
    have "409 \<le> ?v" "?v \<le> 415" using bar by simp_all
    then have "?v div 16 = 25" by presburger
    moreover have "0 \<le> ?v" by simp
    ultimately have "inc_floor 16 ?v = 400" by (simp add: inc_floor_alt)
    then show ?thesis by (simp add: hint_dim_def Let_def)
  qed
  obtain p where a: "applysizehints s c x y 837 409 True =
     (fst p \<noteq> c_x C \<or> snd p \<noteq> c_y C \<or> 800 \<noteq> c_w C \<or> 400 \<noteq> c_h C, fst p, snd p, 800, 400)"
    by (simp add: ash_no_aspect[OF na] C hints w h Let_def)
  show ?thesis
    using c by (auto simp add: resize_def a resizeclient_def upd_client_def client_def)
qed

text \<open>The scenario on window 1 of the example state, whose bar is 20 pixels high.\<close>

theorem resize_increment_scenario_witness:
  "bh (ex_with (ex_client\<lparr>incw := 80, inch := 16, minw := 80, minh := 16\<rparr>)) \<le> 415 \<and>
   c_w (client (resize 1 100 100 837 409 True
          (ex_with (ex_client\<lparr>incw := 80, inch := 16, minw := 80, minh := 16\<rparr>))) 1) = 800 \<and>
   c_h (client (resize 1 100 100 837 409 True
          (ex_with (ex_client\<lparr>incw := 80, inch := 16, minw := 80, minh := 16\<rparr>))) 1) = 400"
  using resize_increment_scenario
    [of "ex_with (ex_client\<lparr>incw := 80, inch := 16, minw := 80, minh := 16\<rparr>)" 1
        "ex_client\<lparr>incw := 80, inch := 16, minw := 80, minh := 16\<rparr>" 100 100]
  by (simp add: ex_with_def ex_client_def)

subsection \<open>What arrange leaves alone\<close>

lemma same_client_refl [simp]: "same_client C C"
  by (simp add: same_client_def)

lemma same_client_trans: "same_client A B \<Longrightarrow> same_client B C \<Longrightarrow> same_client A C"
  unfolding same_client_def by (cases A; cases B; cases C) simp

lemma same_monitor_refl [simp]: "same_monitor m m"
  by (simp add: same_monitor_def)

lemma same_monitor_trans: "same_monitor A B \<Longrightarrow> same_monitor B C \<Longrightarrow> same_monitor A C"
  unfolding same_monitor_def by (cases A; cases B; cases C) simp

lemma geom_only_refl [simp]: "geom_only s s"
  by (simp add: geom_only_def list_all2_refl option.rel_refl)

lemma geom_only_trans: "geom_only a b \<Longrightarrow> geom_only b c \<Longrightarrow> geom_only a c"
  unfolding geom_only_def
  apply (intro conjI allI; (elim conjE)?)
         apply simp_all
   apply (erule (1) list_all2_trans[rotated 1])
  apply (erule (1) same_monitor_trans)
  subgoal for x
    apply (drule_tac x = x in spec)+
    apply (cases "store a x"; cases "store b x"; cases "store c x"; simp)
    by (erule (1) same_client_trans)
  done


lemma geom_only_monitor: "geom_only s s' \<Longrightarrow> same_monitor (monitor s i) (monitor s' i)"
proof -
  assume g: "geom_only s s'"
  then have l: "list_all2 same_monitor (mons s) (mons s')" by (simp add: geom_only_def)
  show ?thesis
  proof (cases "i < length (mons s)")
    case True with l show ?thesis by (simp add: monitor_def list_all2_nthD)
  next
    case False
    with l have "mons s ! i = mons s' ! i"
      by (intro nth_beyond) (auto dest: list_all2_lengthD)
    then show ?thesis by (simp add: monitor_def)
  qed
qed

lemma geom_only_client: "geom_only s s' \<Longrightarrow> same_client (client s c) (client s' c)"
proof -
  assume "geom_only s s'"
  then have "rel_option same_client (store s c) (store s' c)" by (simp add: geom_only_def)
  then show ?thesis by (cases "store s c"; cases "store s' c") (simp_all add: client_def)
qed

lemma same_client_fields:
  assumes "same_client C C'"
  shows "mina C' = mina C" "maxa C' = maxa C" "basew C' = basew C" "baseh C' = baseh C"
    "incw C' = incw C" "inch C' = inch C" "maxw C' = maxw C" "maxh C' = maxh C"
    "minw C' = minw C" "minh C' = minh C" "bw C' = bw C" "oldbw C' = oldbw C"
    "tags C' = tags C" "isfixed C' = isfixed C" "isfloating C' = isfloating C"
    "isurgent C' = isurgent C" "neverfocus C' = neverfocus C" "oldstate C' = oldstate C"
    "isfullscreen C' = isfullscreen C" "mon C' = mon C"
  using assms unfolding same_client_def by (cases C; cases C'; simp)+

lemma same_monitor_fields:
  assumes "same_monitor m m'"
  shows "mfact m' = mfact m" "nmaster m' = nmaster m" "num m' = num m" "bar_y m' = bar_y m"
    "mx m' = mx m" "my m' = my m" "mw m' = mw m" "mh m' = mh m"
    "wx m' = wx m" "wy m' = wy m" "ww m' = ww m" "wh m' = wh m"
    "seltags m' = seltags m" "sellt m' = sellt m" "tagset m' = tagset m"
    "showbar m' = showbar m" "topbar m' = topbar m" "clients m' = clients m"
    "sel m' = sel m" "stack m' = stack m" "lt m' = lt m"
  using assms unfolding same_monitor_def by (cases m; cases m'; simp)+

lemmas geom_only_cfields = same_client_fields[OF geom_only_client]
lemmas geom_only_mfields = same_monitor_fields[OF geom_only_monitor]

lemma geom_only_globals:
  assumes "geom_only s s'"
  shows "sw s' = sw s" "sh s' = sh s" "bh s' = bh s" "selmon s' = selmon s"
    "running s' = running s" "motion_mon s' = motion_mon s" "length (mons s') = length (mons s)"
  using assms by (auto simp: geom_only_def dest: list_all2_lengthD)

lemma geom_only_ISVISIBLE: "geom_only s s' \<Longrightarrow> ISVISIBLE s' c = ISVISIBLE s c"
  by (simp add: ISVISIBLE_def active_tagset_def geom_only_cfields geom_only_mfields)

lemma geom_only_sel_layout: "geom_only s s' \<Longrightarrow> sel_layout (monitor s' i) = sel_layout (monitor s i)"
  by (simp add: sel_layout_def geom_only_mfields)

lemma geom_only_upd_client:
  assumes "\<And>C. same_client C (f C)"
  shows "geom_only s (upd_client c f s)"
  using assms
  by (auto simp: geom_only_def upd_client_def list_all2_refl option.rel_refl split: option.splits)

lemma geom_only_resizeclient: "geom_only s (resizeclient c x y w h s)"
  unfolding resizeclient_def by (rule geom_only_upd_client) (simp add: same_client_def)

lemma geom_only_resize: "geom_only s (resize c x y w h i s)"
  by (simp add: resize_def geom_only_resizeclient split: prod.splits)

lemma geom_only_showhide: "geom_only s (showhide cs s)"
proof (induction cs arbitrary: s)
  case Nil show ?case by simp
next
  case (Cons c cs)
  show ?case
    by (auto simp: Let_def intro: Cons.IH geom_only_trans[OF geom_only_resize Cons.IH])
qed

lemma geom_only_tile_loop: "geom_only s (tile_loop mi n mwid cs i a b s)"
proof (induction cs arbitrary: s i a b)
  case Nil show ?case by simp
next
  case (Cons c cs)
  show ?case
    by (auto simp: Let_def intro: Cons.IH geom_only_trans[OF geom_only_resize Cons.IH])
qed

lemma geom_only_tile: "geom_only s (tile mi s)"
  by (simp add: tile_def Let_def geom_only_tile_loop)

lemma geom_only_monocle_loop: "geom_only s (monocle_loop mi cs s)"
proof (induction cs arbitrary: s)
  case Nil show ?case by simp
next
  case (Cons c cs)
  show ?case
    by (auto simp: Let_def intro: Cons.IH geom_only_trans[OF geom_only_resize Cons.IH])
qed

lemma geom_only_ltsymbol: "geom_only s (upd_monitor mi (\<lambda>m. m\<lparr>ltsymbol := f m\<rparr>) s)"
proof -
  have "list_all2 same_monitor ((mons s)[mi := mons s ! mi])
          ((mons s)[mi := (mons s ! mi)\<lparr>ltsymbol := f (mons s ! mi)\<rparr>])"
    by (intro list_all2_update_cong list_all2_refl) (simp_all add: same_monitor_def)
  then show ?thesis
    by (simp add: geom_only_def upd_monitor_def option.rel_refl)
qed

lemma geom_only_monocle: "geom_only s (monocle mi s)"
proof -
  have "geom_only s (monocle_loop mi cs (upd_monitor mi (\<lambda>m. m\<lparr>ltsymbol := f m\<rparr>) s))" for cs f
    by (rule geom_only_trans[OF geom_only_ltsymbol geom_only_monocle_loop])
  then show ?thesis
    unfolding monocle_def Let_def by (simp add: geom_only_monocle_loop)
qed

lemma geom_only_arrangemon: "geom_only s (arrangemon mi s)"
proof -
  let ?s1 = "upd_monitor mi (\<lambda>m. m\<lparr>ltsymbol := take 16 (symbol (sel_layout m))\<rparr>) s"
  have 1: "geom_only s ?s1" by (rule geom_only_ltsymbol)
  have 2: "geom_only s (tile mi ?s1)" by (rule geom_only_trans[OF 1 geom_only_tile])
  have 3: "geom_only s (monocle mi ?s1)" by (rule geom_only_trans[OF 1 geom_only_monocle])
  show ?thesis
    unfolding arrangemon_def Let_def using 1 2 3
    by (simp split: option.split arrange_fn.split)
qed

lemma geom_only_showhide_all: "geom_only s (showhide_all is s)"
  by (induction "is" arbitrary: s) (auto intro: geom_only_trans[OF geom_only_showhide])

lemma geom_only_arrangemon_all: "geom_only s (arrangemon_all is s)"
  by (induction "is" arbitrary: s) (auto intro: geom_only_trans[OF geom_only_arrangemon])

lemma geom_only_arrange: "geom_only s (arrange mo s)"
proof (cases mo)
  case None
  then show ?thesis
    by (simp add: arrange_def geom_only_trans[OF geom_only_showhide_all geom_only_arrangemon_all])
next
  case (Some mi)
  then show ?thesis
    by (simp add: arrange_def geom_only_trans[OF geom_only_showhide geom_only_arrangemon])
qed

subsection \<open>Claim C10: zoom in the floating layout or on a floating client\<close>

text \<open>
  Claim C10. When the current layout of the selected monitor has no arrange function, or
  the selected client is floating, \<^verbatim>\<open>zoom\<close> returns the state as it is: client lists, focus
  stacks and every client's geometry are untouched.
\<close>

theorem zoom_noop:
  assumes "lt_arrange (sel_layout (monitor s (selmon s))) = None
           \<or> (\<exists>c. sel (monitor s (selmon s)) = Some c \<and> isfloating (client s c))"
  shows "zoom s = s"
  using assms by (auto simp: zoom_def Let_def)

text \<open>
  The claim on the example state with window 1 floating, and on the example state with
  its monitor in the floating layout.
\<close>

theorem zoom_noop_witness:
  "zoom (ex_with (ex_client\<lparr>isfloating := True\<rparr>)) = ex_with (ex_client\<lparr>isfloating := True\<rparr>) \<and>
   zoom ((ex_with ex_client)\<lparr>mons := [ex_monitor\<lparr>clients := [1], sel := Some 1, stack := [1], sellt := 1\<rparr>]\<rparr>)
     = (ex_with ex_client)\<lparr>mons := [ex_monitor\<lparr>clients := [1], sel := Some 1, stack := [1], sellt := 1\<rparr>]\<rparr>"
proof -
  have 1: "\<exists>c. sel (monitor (ex_with (ex_client\<lparr>isfloating := True\<rparr>))
                       (selmon (ex_with (ex_client\<lparr>isfloating := True\<rparr>)))) = Some c
               \<and> isfloating (client (ex_with (ex_client\<lparr>isfloating := True\<rparr>)) c)"
    by (simp add: ex_defs)
  have 2: "lt_arrange (sel_layout (monitor
              ((ex_with ex_client)\<lparr>mons := [ex_monitor\<lparr>clients := [1], sel := Some 1, stack := [1], sellt := 1\<rparr>]\<rparr>)
              (selmon ((ex_with ex_client)\<lparr>mons := [ex_monitor\<lparr>clients := [1], sel := Some 1, stack := [1], sellt := 1\<rparr>]\<rparr>)))) = None"
    by (simp add: ex_defs sel_layout_def)
  from 1 2 show ?thesis
    using zoom_noop[of "ex_with (ex_client\<lparr>isfloating := True\<rparr>)"]
          zoom_noop[of "(ex_with ex_client)\<lparr>mons := [ex_monitor\<lparr>clients := [1], sel := Some 1, stack := [1], sellt := 1\<rparr>]\<rparr>"]
    by blast
qed

subsection \<open>Claim C3: fullscreen on and off\<close>

text \<open>
  Claim C3 says that \<^verbatim>\<open>setfullscreen(c, 1); setfullscreen(c, 0)\<close> gives every client its
  geometry back. The second call ends with \<^verbatim>\<open>arrange(c->mon)\<close>, and that may move the
  client again. Window 1 of the example state, floating and 10 pixels wide (a floating
  client gets that width by a ConfigureRequest), comes back 20 pixels wide, the height
  of the bar, while its border and the rest of its geometry come back as they were.
\<close>

theorem setfullscreen_round_trip_moves:
  "c_w (client (ex_with (ex_client\<lparr>isfloating := True, c_w := 10\<rparr>)) 1) = 10 \<and>
   \<not> isfullscreen (client (ex_with (ex_client\<lparr>isfloating := True, c_w := 10\<rparr>)) 1) \<and>
   c_w (client (setfullscreen 1 False (setfullscreen 1 True
          (ex_with (ex_client\<lparr>isfloating := True, c_w := 10\<rparr>)))) 1) = 20 \<and>
   bw (client (setfullscreen 1 False (setfullscreen 1 True
          (ex_with (ex_client\<lparr>isfloating := True, c_w := 10\<rparr>)))) 1) = 1 \<and>
   c_h (client (setfullscreen 1 False (setfullscreen 1 True
          (ex_with (ex_client\<lparr>isfloating := True, c_w := 10\<rparr>)))) 1) = 480"
  by code_simp

text \<open>
  Claim C3, amended. For a client \<open>c\<close> that is not fullscreen, \<^verbatim>\<open>setfullscreen(c, 1)\<close>
  followed by \<^verbatim>\<open>setfullscreen(c, 0)\<close> is \<^verbatim>\<open>arrange(c->mon)\<close> run on the state before the
  first call, in which only the fields \<^verbatim>\<open>oldx, oldy, oldw, oldh, oldbw, oldstate\<close> of \<open>c\<close>
  have been set to its geometry, border width and floating flag. So the second call
  restores \<open>x, y, w, h\<close> and the border of before the first call and then arranges the
  monitor: afterwards the border width and the floating flag are those of before, the
  client is not fullscreen, and its geometry is what that \<^verbatim>\<open>arrange\<close> makes of the
  restored one.
\<close>

theorem setfullscreen_round_trip:
  assumes c: "store s c = Some C" and nf: "\<not> isfullscreen C"
  shows "setfullscreen c False (setfullscreen c True s) =
           arrange (Some (mon C))
             (upd_client c (\<lambda>C. C\<lparr>oldx := c_x C, oldy := c_y C, oldw := c_w C, oldh := c_h C,
                                   oldbw := bw C, oldstate := isfloating C\<rparr>) s) \<and>
         bw (client (setfullscreen c False (setfullscreen c True s)) c) = bw C \<and>
         isfloating (client (setfullscreen c False (setfullscreen c True s)) c) = isfloating C \<and>
         \<not> isfullscreen (client (setfullscreen c False (setfullscreen c True s)) c)"
proof -
  let ?m = "monitor s (mon C)"
  let ?C1 = "C\<lparr>isfullscreen := True, oldstate := isfloating C, oldbw := bw C, bw := 0,
               isfloating := True, oldx := c_x C, c_x := mx ?m, oldy := c_y C, c_y := my ?m,
               oldw := c_w C, c_w := mw ?m, oldh := c_h C, c_h := mh ?m\<rparr>"
  let ?s0 = "upd_client c (\<lambda>C. C\<lparr>oldx := c_x C, oldy := c_y C, oldw := c_w C, oldh := c_h C,
                                   oldbw := bw C, oldstate := isfloating C\<rparr>) s"
  have s1: "setfullscreen c True s = s\<lparr>store := (store s)(c \<mapsto> ?C1)\<rparr>"
    using c nf by (simp add: setfullscreen_def client_def Let_def resizeclient_def upd_client_def)
  have e: "C\<lparr>oldstate := a, oldbw := b, isfullscreen := False, oldx := x1, oldy := y1,
               oldw := w1, oldh := h1\<rparr> =
           C\<lparr>oldx := x1, oldy := y1, oldw := w1, oldh := h1, oldbw := b, oldstate := a\<rparr>"
    for a b x1 y1 w1 h1
    using nf by (cases C) simp
  have eq: "setfullscreen c False (setfullscreen c True s) = arrange (Some (mon C)) ?s0"
    unfolding s1 using c nf
    by (simp add: setfullscreen_def client_def Let_def resizeclient_def upd_client_def e)
  have g: "geom_only ?s0 (arrange (Some (mon C)) ?s0)"
    by (rule geom_only_arrange)
  have "bw (client ?s0 c) = bw C" "isfloating (client ?s0 c) = isfloating C"
       "\<not> isfullscreen (client ?s0 c)"
    using c nf by (simp_all add: client_upd_client)
  then show ?thesis
    unfolding eq by (simp add: geom_only_cfields[OF g])
qed

text \<open>
  The amended claim on window 1 of the example state, tiled, 640 by 480 at 100, 100 with
  border 1: after the round trip the border is 1 again, and the closing \<^verbatim>\<open>arrange\<close> has
  tiled the restored window over the window area, 1918 by 1058 at 0, 20.
\<close>

theorem setfullscreen_round_trip_witness:
  "store (ex_with ex_client) 1 = Some ex_client \<and> \<not> isfullscreen ex_client \<and>
   bw (client (setfullscreen 1 False (setfullscreen 1 True (ex_with ex_client))) 1) = 1 \<and>
   \<not> isfloating (client (setfullscreen 1 False (setfullscreen 1 True (ex_with ex_client))) 1) \<and>
   \<not> isfullscreen (client (setfullscreen 1 False (setfullscreen 1 True (ex_with ex_client))) 1) \<and>
   c_w (client (arrange (Some 0) (upd_client 1
          (\<lambda>C. C\<lparr>oldx := c_x C, oldy := c_y C, oldw := c_w C, oldh := c_h C,
                  oldbw := bw C, oldstate := isfloating C\<rparr>) (ex_with ex_client))) 1) = 1918 \<and>
   c_w (client (setfullscreen 1 False (setfullscreen 1 True (ex_with ex_client))) 1) = 1918"
proof -
  let ?s2 = "setfullscreen 1 False (setfullscreen 1 True (ex_with ex_client))"
  let ?s0 = "upd_client 1 (\<lambda>C. C\<lparr>oldx := c_x C, oldy := c_y C, oldw := c_w C, oldh := c_h C,
                  oldbw := bw C, oldstate := isfloating C\<rparr>) (ex_with ex_client)"
  have c: "store (ex_with ex_client) 1 = Some ex_client" and nf: "\<not> isfullscreen ex_client"
    by (simp_all add: ex_with_def ex_client_def)
  have m: "mon ex_client = 0" "bw ex_client = 1" "\<not> isfloating ex_client"
    by (simp_all add: ex_client_def)
  have a: "c_w (client (arrange (Some 0) ?s0) 1) = 1918"
    by code_simp
  note r = setfullscreen_round_trip[OF c nf]
  from r have eq: "?s2 = arrange (Some 0) ?s0" unfolding m by (rule conjunct1)
  from r have b1: "bw (client ?s2 1) = bw ex_client"
    and b2: "isfloating (client ?s2 1) = isfloating ex_client"
    and b3: "\<not> isfullscreen (client ?s2 1)"
    by blast+
  from b1 b2 b3 m have b: "bw (client ?s2 1) = 1" "\<not> isfloating (client ?s2 1)"
    "\<not> isfullscreen (client ?s2 1)"
    by simp_all
  have w: "c_w (client ?s2 1) = 1918" unfolding eq by (rule a)
  from c nf b a w show ?thesis by blast
qed

subsection \<open>Claim C4: the state of a fullscreen client\<close>

text \<open>
  Claim C4 says that a fullscreen client always has border width 0 and the geometry of
  its monitor, also after a ConfigureRequest. \<^verbatim>\<open>configurerequest\<close> does not look at
  \<^verbatim>\<open>isfullscreen\<close>, where \<^verbatim>\<open>movemouse\<close>, \<^verbatim>\<open>resizemouse\<close>, \<^verbatim>\<open>togglefloating\<close> and \<^verbatim>\<open>showhide\<close>
  do. Window 1 of the example state is made fullscreen (border 0, width 1920). A
  request for border width 5 then leaves it fullscreen with border 5, and a request for
  width 800 leaves it fullscreen and 800 pixels wide.
\<close>

theorem configurerequest_breaks_fullscreen:
  "isfullscreen (client (setfullscreen 1 True (ex_with ex_client)) 1) \<and>
   bw (client (setfullscreen 1 True (ex_with ex_client)) 1) = 0 \<and>
   c_w (client (setfullscreen 1 True (ex_with ex_client)) 1) = 1920 \<and>
   isfullscreen (client (configurerequest (ex_cr\<lparr>cr_value_mask := CWBorderWidth, cr_border_width := 5\<rparr>)
       (setfullscreen 1 True (ex_with ex_client))) 1) \<and>
   bw (client (configurerequest (ex_cr\<lparr>cr_value_mask := CWBorderWidth, cr_border_width := 5\<rparr>)
       (setfullscreen 1 True (ex_with ex_client))) 1) = 5 \<and>
   isfullscreen (client (configurerequest (ex_cr\<lparr>cr_value_mask := CWWidth, cr_width := 800\<rparr>)
       (setfullscreen 1 True (ex_with ex_client))) 1) \<and>
   c_w (client (configurerequest (ex_cr\<lparr>cr_value_mask := CWWidth, cr_width := 800\<rparr>)
       (setfullscreen 1 True (ex_with ex_client))) 1) = 800"
  by code_simp

subsection \<open>Claim C9: the command line\<close>

text \<open>
  Claim C9. Invoked with the single argument \<^verbatim>\<open>-v\<close>, the program prints the version and
  exits with status 0. Invoked with any other argument or arguments it prints the usage
  message to standard error and exits with a nonzero status. (Without arguments \<^verbatim>\<open>main\<close>
  goes on to start.) The argument check is that of \<^verbatim>\<open>main\<close>; what \<^verbatim>\<open>die\<close> does with the two
  messages is modelled from the spec.
\<close>

theorem main_arguments:
  "(length argv = 2 \<and> argv ! 1 = ''-v'' \<longrightarrow>
      main version argv = Exit 0 (''dwm-'' @ version) []) \<and>
   (length argv \<noteq> 1 \<and> \<not> (length argv = 2 \<and> argv ! 1 = ''-v'') \<longrightarrow>
      (\<exists>st. st \<noteq> 0 \<and> main version argv = Exit st [] ''usage: dwm [-v]'')) \<and>
   (length argv = 1 \<longrightarrow> main version argv = Starts)"
  by (auto simp: main_def die_def EXIT_FAILURE_def)

text \<open>The claim for \<^verbatim>\<open>dwm -v\<close>, \<^verbatim>\<open>dwm -x\<close>, \<^verbatim>\<open>dwm -v -v\<close> and \<^verbatim>\<open>dwm\<close>.\<close>

theorem main_arguments_witness:
  "main ''6.1'' [''dwm'', ''-v''] = Exit 0 ''dwm-6.1'' [] \<and>
   (\<exists>st. st \<noteq> 0 \<and> main ''6.1'' [''dwm'', ''-x''] = Exit st [] ''usage: dwm [-v]'') \<and>
   (\<exists>st. st \<noteq> 0 \<and> main ''6.1'' [''dwm'', ''-v'', ''-v''] = Exit st [] ''usage: dwm [-v]'') \<and>
   main ''6.1'' [''dwm''] = Starts"
  using main_arguments[of "[''dwm'', ''-v'']" "''6.1''"]
        main_arguments[of "[''dwm'', ''-x'']" "''6.1''"]
        main_arguments[of "[''dwm'', ''-v'', ''-v'']" "''6.1''"]
        main_arguments[of "[''dwm'']" "''6.1''"]
  by simp

subsection \<open>Claim C2: four clients in the tile layout\<close>

lemma sint_small:
  "- (2 ^ 31) \<le> v \<Longrightarrow> v < 2 ^ 31 \<Longrightarrow> sint (word_of_int v :: 32 word) = v"
  by (simp add: sint_sbintrunc' signed_take_bit_int_eq_self)

lemma plain_tiled_geom_only:
  "geom_only s s' \<Longrightarrow> plain_tiled s' mi b c = plain_tiled s mi b c"
proof -
  assume g: "geom_only s s'"
  then have r: "rel_option same_client (store s c) (store s' c)" by (simp add: geom_only_def)
  show ?thesis
  proof (cases "store s c")
    case None
    with r show ?thesis by (cases "store s' c") (simp_all add: plain_tiled_def)
  next
    case (Some C)
    with r obtain C' where C': "store s' c = Some C'" "same_client C C'"
      by (cases "store s' c") simp_all
    show ?thesis
      using Some C' same_client_fields[OF C'(2)] geom_only_ISVISIBLE[OF g]
      by (simp add: plain_tiled_def no_hints_def)
  qed
qed

lemma resize_other: "d \<noteq> c \<Longrightarrow> store (resize c x y w h i s) d = store s d"
  by (simp add: resize_def resizeclient_def store_upd_client split: prod.splits)

lemma resize_geometry:
  assumes c: "store s c = Some C"
    and a: "applysizehints s c x y w h i = (changed, x', y', w', h')"
  shows "geometry (client (resize c x y w h i s) c) = (x', y', w', h')"
proof -
  have C: "client s c = C" using c by (simp add: client_def)
  from a have ch: "changed = (x' \<noteq> c_x C \<or> y' \<noteq> c_y C \<or> w' \<noteq> c_w C \<or> h' \<noteq> c_h C)"
    by (auto simp: applysizehints_def Let_def C split: prod.splits)
  show ?thesis
    using c ch by (auto simp: resize_def a resizeclient_def client_upd_client geometry_def C)
qed

lemma ash_plain:
  assumes p: "plain_tiled s mi b c"
    and b: "0 \<le> b"
    and r: "x < wx (monitor s mi) + ww (monitor s mi)" "y < wy (monitor s mi) + wh (monitor s mi)"
       "wx (monitor s mi) < x + w + 2 * b" "wy (monitor s mi) < y + h + 2 * b"
       "1 \<le> w" "1 \<le> h" "bh s \<le> w" "bh s \<le> h"
  shows "\<exists>changed. applysizehints s c x y w h False = (changed, x, y, w, h)"
proof -
  from p obtain C where C: "store s c = Some C" "mon C = mi" "bw C = b" "no_hints C"
    by (auto simp: plain_tiled_def split: option.splits)
  have cl: "client s c = C" using C by (simp add: client_def)
  have na: "\<not> (0 < mina (client s c) \<and> 0 < maxa (client s c))"
    using C by (simp add: cl no_hints_def)
  have k: "keep_inside s C (monitor s mi) False x y (max 1 w) (max 1 h) = (x, y)"
    using r b C by (simp add: keep_inside_def Let_def max_absorb2)
  have w: "hint_dim 0 0 0 0 (max (max 1 (bh s)) w) = w"
    using r by (simp add: hint_dim_def inc_floor_def Let_def max_absorb2 max_absorb1)
  have h: "hint_dim 0 0 0 0 (max (max 1 (bh s)) h) = h"
    using r by (simp add: hint_dim_def inc_floor_def Let_def max_absorb2 max_absorb1)
  show ?thesis
    using C(4) by (simp add: ash_no_aspect[OF na] cl C(2) k Let_def no_hints_def w h)
qed

lemma resize_plain:
  assumes p: "plain_tiled s mi b c"
    and b: "0 \<le> b"
    and r: "x < wx (monitor s mi) + ww (monitor s mi)" "y < wy (monitor s mi) + wh (monitor s mi)"
       "wx (monitor s mi) < x + w + 2 * b" "wy (monitor s mi) < y + h + 2 * b"
       "1 \<le> w" "1 \<le> h" "bh s \<le> w" "bh s \<le> h"
  shows "geometry (client (resize c x y w h False s) c) = (x, y, w, h)"
proof -
  from p obtain C where C: "store s c = Some C"
    by (auto simp: plain_tiled_def split: option.splits)
  from ash_plain[OF p b r] obtain changed where
    "applysizehints s c x y w h False = (changed, x, y, w, h)" ..
  from resize_geometry[OF C this] show ?thesis .
qed


lemma sint_sub_small:
  assumes "0 \<le> v" "v \<le> K" "K < 2 ^ 31"
  shows "sint (word_of_int K - word_of_int v :: 32 word) = K - v"
proof -
  have "word_of_int K - word_of_int v = (word_of_int (K - v) :: 32 word)" by simp
  moreover have "sint (word_of_int (K - v) :: 32 word) = K - v"
    using assms by (intro sint_small) simp_all
  ultimately show ?thesis by simp
qed

lemma plain_tiled_fields:
  assumes "plain_tiled s mi b c"
  shows "\<not> (isfloating (client s c) \<or> \<not> ISVISIBLE s c)" "bw (client s c) = b"
  using assms by (auto simp: plain_tiled_def client_def split: option.splits)

lemma HEIGHT_geometry: "geometry C = (x, y, w, h) \<Longrightarrow> HEIGHT C = h + 2 * bw C"
  by (simp add: geometry_def HEIGHT_def)

lemma tile_loop_master:
  assumes "\<not> (isfloating (client s c) \<or> \<not> ISVISIBLE s c)"
    and "i < word_of_int (nmaster (monitor s mi))"
  shows "tile_loop mi n mwid (c # cs) i myy tyy s =
     (let m = monitor s mi; b = bw (client s c);
          h = (word_of_int (wh m) - myy) div (min n (word_of_int (nmaster m)) - i);
          s1 = resize c (wx m) (sint (word_of_int (wy m) + myy))
                 (sint (mwid - word_of_int (2 * b))) (sint (h - word_of_int (2 * b))) False s
      in tile_loop mi n mwid cs (i + 1) (myy + word_of_int (HEIGHT (client s1 c))) tyy s1)"
  using assms by (simp add: Let_def)

lemma tile_loop_stack:
  assumes "\<not> (isfloating (client s c) \<or> \<not> ISVISIBLE s c)"
    and "\<not> i < word_of_int (nmaster (monitor s mi))"
  shows "tile_loop mi n mwid (c # cs) i myy tyy s =
     (let m = monitor s mi; b = bw (client s c);
          h = (word_of_int (wh m) - tyy) div (n - i);
          s1 = resize c (sint (word_of_int (wx m) + mwid)) (sint (word_of_int (wy m) + tyy))
                 (sint (word_of_int (ww m) - mwid - word_of_int (2 * b)))
                 (sint (h - word_of_int (2 * b))) False s
      in tile_loop mi n mwid cs (i + 1) myy (tyy + word_of_int (HEIGHT (client s1 c))) s1)"
  using assms by (simp add: Let_def)

text \<open>
  Claim C2. The window area of the monitor is 1600 by 1000 at the origin, \<^verbatim>\<open>nmaster\<close> is 1
  and \<^verbatim>\<open>mfact\<close> is 0.55: any value from 0.55 up to 0.550625 will do, which covers the
  binary32 number next to 0.55 and whatever excess precision the product
  \<^verbatim>\<open>m->ww * m->mfact\<close> is computed in. The client list holds exactly four clients, all
  visible, tiled, without size hints and with the same border width \<open>b\<close>, and the smallest
  cell leaves room for the border and is not lower than the bar. Then \<^verbatim>\<open>tile\<close> places the
  first client at 0, 0 with width \<open>880 - 2b\<close> and height \<open>1000 - 2b\<close>, and the other three
  in the strip at x = 880, at y = 0, 333 and 666, in cells 333, 333 and 334 high (window
  heights \<open>333 - 2b\<close>, \<open>333 - 2b\<close> and \<open>334 - 2b\<close>).
\<close>

theorem tile_four_clients:
  assumes m: "wx (monitor s mi) = 0" "wy (monitor s mi) = 0" "ww (monitor s mi) = 1600"
      "wh (monitor s mi) = 1000" "nmaster (monitor s mi) = 1"
      "55 / 100 \<le> mfact (monitor s mi)" "mfact (monitor s mi) < 881 / 1600"
    and cl: "clients (monitor s mi) = [c1, c2, c3, c4]" "distinct [c1, c2, c3, c4]"
    and p: "plain_tiled s mi b c1" "plain_tiled s mi b c2" "plain_tiled s mi b c3"
      "plain_tiled s mi b c4"
    and b: "0 \<le> b" "2 * b < 333" "bh s \<le> 333 - 2 * b"
  shows "geometry (client (tile mi s) c1) = (0, 0, 880 - 2 * b, 1000 - 2 * b) \<and>
         geometry (client (tile mi s) c2) = (880, 0, 720 - 2 * b, 333 - 2 * b) \<and>
         geometry (client (tile mi s) c3) = (880, 333, 720 - 2 * b, 333 - 2 * b) \<and>
         geometry (client (tile mi s) c4) = (880, 666, 720 - 2 * b, 334 - 2 * b) \<and>
         map (\<lambda>c. HEIGHT (client (tile mi s) c)) [c2, c3, c4] = [333, 333, 334]"
proof -
  define s1 where "s1 = resize c1 0 0 (880 - 2 * b) (1000 - 2 * b) False s"
  define s2 where "s2 = resize c2 880 0 (720 - 2 * b) (333 - 2 * b) False s1"
  define s3 where "s3 = resize c3 880 333 (720 - 2 * b) (333 - 2 * b) False s2"
  define s4 where "s4 = resize c4 880 666 (720 - 2 * b) (334 - 2 * b) False s3"
  have g1: "geom_only s s1" unfolding s1_def by (rule geom_only_resize)
  have g2: "geom_only s1 s2" unfolding s2_def by (rule geom_only_resize)
  have g3: "geom_only s2 s3" unfolding s3_def by (rule geom_only_resize)
  have g02: "geom_only s s2" by (rule geom_only_trans[OF g1 g2])
  have g03: "geom_only s s3" by (rule geom_only_trans[OF g02 g3])
  note gm = geom_only_mfields
  have m1: "wx (monitor s1 mi) = 0" "wy (monitor s1 mi) = 0" "ww (monitor s1 mi) = 1600"
      "wh (monitor s1 mi) = 1000" "nmaster (monitor s1 mi) = 1" "bh s1 \<le> 333 - 2 * b"
    using m b by (simp_all add: gm[OF g1] geom_only_globals[OF g1])
  have m2: "wx (monitor s2 mi) = 0" "wy (monitor s2 mi) = 0" "ww (monitor s2 mi) = 1600"
      "wh (monitor s2 mi) = 1000" "nmaster (monitor s2 mi) = 1" "bh s2 \<le> 333 - 2 * b"
    using m b by (simp_all add: gm[OF g02] geom_only_globals[OF g02])
  have m3: "wx (monitor s3 mi) = 0" "wy (monitor s3 mi) = 0" "ww (monitor s3 mi) = 1600"
      "wh (monitor s3 mi) = 1000" "nmaster (monitor s3 mi) = 1" "bh s3 \<le> 333 - 2 * b"
    using m b by (simp_all add: gm[OF g03] geom_only_globals[OF g03])
  have p1: "plain_tiled s1 mi b c" if "plain_tiled s mi b c" for c
    using that by (simp add: plain_tiled_geom_only[OF g1])
  have p2: "plain_tiled s2 mi b c" if "plain_tiled s mi b c" for c
    using that by (simp add: plain_tiled_geom_only[OF g02])
  have p3: "plain_tiled s3 mi b c" if "plain_tiled s mi b c" for c
    using that by (simp add: plain_tiled_geom_only[OF g03])
  have r1: "geometry (client s1 c1) = (0, 0, 880 - 2 * b, 1000 - 2 * b)"
    unfolding s1_def using m b by (intro resize_plain[OF p(1)]) simp_all
  have r2: "geometry (client s2 c2) = (880, 0, 720 - 2 * b, 333 - 2 * b)"
    unfolding s2_def using m1 b by (intro resize_plain[OF p1[OF p(2)]]) simp_all
  have r3: "geometry (client s3 c3) = (880, 333, 720 - 2 * b, 333 - 2 * b)"
    unfolding s3_def using m2 b by (intro resize_plain[OF p2[OF p(3)]]) simp_all
  have r4: "geometry (client s4 c4) = (880, 666, 720 - 2 * b, 334 - 2 * b)"
    unfolding s4_def using m3 b by (intro resize_plain[OF p3[OF p(4)]]) simp_all
  have n: "count_tiled s [c1, c2, c3, c4] = 4"
    using p by (simp add: count_tiled_def plain_tiled_fields)
  have "880 \<le> 1600 * mfact (monitor s mi)" "1600 * mfact (monitor s mi) < 881"
    using m(6,7) by simp_all
  then have fl: "c_trunc (1600 * mfact (monitor s mi)) = 880"
    by (simp add: c_trunc_def floor_unique)
  have sb: "sint (numeral k - 2 * word_of_int b :: 32 word) = numeral k - 2 * b"
    if "333 \<le> (numeral k :: int)" "(numeral k :: int) < 2 ^ 31" for k
    using sint_sub_small[of "2 * b" "numeral k"] that b by simp
  have h1: "HEIGHT (client s1 c1) = 1000"
    using HEIGHT_geometry[OF r1] plain_tiled_fields(2)[OF p1[OF p(1)]] by simp
  have h2: "HEIGHT (client s2 c2) = 333"
    using HEIGHT_geometry[OF r2] plain_tiled_fields(2)[OF p2[OF p(2)]] by simp
  have h3: "HEIGHT (client s3 c3) = 333"
    using HEIGHT_geometry[OF r3] plain_tiled_fields(2)[OF p3[OF p(3)]] by simp
  have t1: "tile_loop mi 4 880 [c1, c2, c3, c4] 0 0 0 s = tile_loop mi 4 880 [c2, c3, c4] 1 1000 0 s1"
    using plain_tiled_fields(2)[OF p(1)] m h1[unfolded s1_def]
    by (subst tile_loop_master[OF plain_tiled_fields(1)[OF p(1)]])
       (simp_all add: Let_def sb s1_def del: tile_loop.simps)
  have t2: "tile_loop mi 4 880 [c2, c3, c4] 1 1000 0 s1 = tile_loop mi 4 880 [c3, c4] 2 1000 333 s2"
    using plain_tiled_fields(2)[OF p1[OF p(2)]] m1 h2[unfolded s2_def]
    by (subst tile_loop_stack[OF plain_tiled_fields(1)[OF p1[OF p(2)]]])
       (simp_all add: Let_def sb s2_def del: tile_loop.simps)
  have t3: "tile_loop mi 4 880 [c3, c4] 2 1000 333 s2 = tile_loop mi 4 880 [c4] 3 1000 666 s3"
    using plain_tiled_fields(2)[OF p2[OF p(3)]] m2 h3[unfolded s3_def]
    by (subst tile_loop_stack[OF plain_tiled_fields(1)[OF p2[OF p(3)]]])
       (simp_all add: Let_def sb s3_def del: tile_loop.simps)
  have t4: "tile_loop mi 4 880 [c4] 3 1000 666 s3 = s4"
    using plain_tiled_fields(2)[OF p3[OF p(4)]] m3
    by (subst tile_loop_stack[OF plain_tiled_fields(1)[OF p3[OF p(4)]]])
       (simp_all add: Let_def sb s4_def)
  have t: "tile mi s = s4"
    using m by (simp add: tile_def Let_def cl n fl t1 t2 t3 t4 del: tile_loop.simps)
  have c1: "client s4 c1 = client s1 c1"
    using cl(2) by (simp add: client_def s4_def s3_def s2_def resize_other)
  have c2: "client s4 c2 = client s2 c2"
    using cl(2) by (simp add: client_def s4_def s3_def resize_other)
  have c3: "client s4 c3 = client s3 c3"
    using cl(2) by (simp add: client_def s4_def resize_other)
  have g34: "geom_only s3 s4" unfolding s4_def by (rule geom_only_resize)
  have h4: "HEIGHT (client s4 c4) = 334"
    using HEIGHT_geometry[OF r4] plain_tiled_fields(2)[OF p3[OF p(4)]]
    by (simp add: geom_only_cfields[OF g34])
  show ?thesis
    unfolding t by (simp add: c1 c2 c3 r1 r2 r3 r4 h2 h3 h4)
qed

text \<open>The claim on the example state of four windows with border width 1.\<close>

theorem tile_four_clients_witness:
  "clients (monitor ex_tile4 0) = [1, 2, 3, 4] \<and>
   plain_tiled ex_tile4 0 1 1 \<and> plain_tiled ex_tile4 0 1 2 \<and>
   plain_tiled ex_tile4 0 1 3 \<and> plain_tiled ex_tile4 0 1 4 \<and>
   geometry (client (tile 0 ex_tile4) 1) = (0, 0, 878, 998) \<and>
   geometry (client (tile 0 ex_tile4) 2) = (880, 0, 718, 331) \<and>
   geometry (client (tile 0 ex_tile4) 3) = (880, 333, 718, 331) \<and>
   geometry (client (tile 0 ex_tile4) 4) = (880, 666, 718, 332) \<and>
   map (\<lambda>c. HEIGHT (client (tile 0 ex_tile4) c)) [2, 3, 4] = [333, 333, 334]"
proof -
  have p: "plain_tiled ex_tile4 0 1 1" "plain_tiled ex_tile4 0 1 2"
      "plain_tiled ex_tile4 0 1 3" "plain_tiled ex_tile4 0 1 4"
    by (simp_all add: plain_tiled_def no_hints_def ISVISIBLE_def active_tagset_def
        ex_tile4_def ex_client_def ex_monitor_def client_def monitor_def)
  have m: "wx (monitor ex_tile4 0) = 0" "wy (monitor ex_tile4 0) = 0"
      "ww (monitor ex_tile4 0) = 1600" "wh (monitor ex_tile4 0) = 1000"
      "nmaster (monitor ex_tile4 0) = 1" "55 / 100 \<le> mfact (monitor ex_tile4 0)"
      "mfact (monitor ex_tile4 0) < 881 / 1600"
      "clients (monitor ex_tile4 0) = [1, 2, 3, 4]" "bh ex_tile4 \<le> 333 - 2 * 1"
    by (simp_all add: ex_tile4_def ex_monitor_def monitor_def)
  have d: "distinct [1 :: nat, 2, 3, 4]" by simp
  from tile_four_clients[OF m(1-8) d p _ _ m(9)] p m(8) show ?thesis by simp
qed

end
